theory Spec2Isabelle
  imports Complex_Main
begin

section \<open>Data model of \<open>eye_processor.py\<close>\<close>

text \<open>
  The enum \<open>InformationOrigin\<close> and the dataclass \<open>EyeInformation\<close>. The dataclass fields
  \<open>x\<close> and \<open>y\<close> are the selectors \<open>info_x\<close> and \<open>info_y\<close>. The field \<open>blink\<close> is annotated
  \<open>bool\<close> in the source but receives \<open>self.eyeopen\<close> (the number returned by \<open>intense\<close>) or
  \<open>0.0\<close>, so it is a number here. Coordinates are Python floats; only their equality with
  \<open>0\<close> is ever inspected, so they are reals.
\<close>

datatype InformationOrigin = RANSAC | BLOB | FAILURE | HSF | HSRAC

datatype EyeInformation =
  EyeInformation (info_type: InformationOrigin) (info_x: real) (info_y: real)
    (pupil_dialation: int) (blink: real)

text \<open>Exceptions of the Python run time and of OpenCV that the code can meet.\<close>

datatype exn =
  TypeError | AttributeError | ValueError | IndexError | OverflowError | cv2_error

text \<open>
  Sequencing of two statements of which the first may raise: the exception propagates.
\<close>

definition seq :: "exn + 'a \<Rightarrow> ('a \<Rightarrow> exn + 'b) \<Rightarrow> exn + 'b" where
  "seq r k = (case r of Inl e \<Rightarrow> Inl e | Inr v \<Rightarrow> k v)"

subsection \<open>Frames\<close>

text \<open>
  A frame is a numpy array. Its shape is kept exactly (rows, columns, channels; an array
  with one channel is the two-dimensional array OpenCV produces for grayscale, whose
  \<open>shape\<close> has two components). Its pixel content is kept symbolically, as the expression
  that produced it, so that the identity of a frame can be followed through the pipeline
  without modelling interpolation arithmetic.
\<close>

datatype pixels =
    Captured nat
  | Crop pixels int int int int
  | Warp pixels int
  | ToGray pixels
  | ToBGR pixels
  | HStack pixels pixels

datatype image =
  Image (img_rows: nat) (img_cols: nat) (img_chans: nat) (img_data: pixels)

text \<open>
  Python slicing \<open>a[start:stop]\<close> on an axis of length \<open>n\<close>: a negative bound counts from
  the end, and both bounds are clamped to \<open>0..n\<close>; slicing never raises.
\<close>

definition slice_index :: "nat \<Rightarrow> int \<Rightarrow> nat" where
  "slice_index n i = (if i < 0 then nat (max 0 (int n + i)) else min (nat i) n)"

definition slice_len :: "nat \<Rightarrow> int \<Rightarrow> int \<Rightarrow> nat" where
  "slice_len n start stop = slice_index n stop - slice_index n start"

text \<open>The crop \<open>img[y : y + h, x : x + w]\<close> of \<open>capture_crop_rotate_image\<close>.\<close>

definition crop :: "image \<Rightarrow> int \<Rightarrow> int \<Rightarrow> int \<Rightarrow> int \<Rightarrow> image" where
  "crop img x y w h =
     Image (slice_len (img_rows img) y (y + h)) (slice_len (img_cols img) x (x + w))
       (img_chans img) (Crop (img_data img) y (y + h) x (x + w))"

text \<open>
  \<open>rows, cols, _ = img.shape\<close>: unpacking into three names raises \<open>ValueError\<close> on a
  two-dimensional array and \<open>AttributeError\<close> on \<open>None\<close>.
\<close>

definition shape3 :: "image option \<Rightarrow> exn + (nat \<times> nat)" where
  "shape3 a =
     (case a of
        None \<Rightarrow> Inl AttributeError
      | Some img \<Rightarrow>
          if img_chans img = 1 then Inl ValueError else Inr (img_rows img, img_cols img))"

text \<open>
  The contracts of the OpenCV and numpy calls, as far as shapes and failure go.

  \<open>cv2.getRotationMatrix2D(center, angle, 1)\<close> converts the angle to a C double; a Python
  integer converts when it rounds to a finite double, that is when its magnitude is below
  \<open>2^1024 - 2^970\<close>, and the conversion raises \<open>OverflowError\<close> otherwise. The matrix is
  represented by its angle.

  \<open>cv2.warpAffine(src, M, (cols, rows))\<close> rejects \<open>None\<close> and an empty source, takes the
  source's size for the canvas when the requested size is empty, rejects a source or a
  canvas with a side of 32767 (\<open>SHRT_MAX\<close>) or more, and returns a canvas of that size.

  \<open>cv2.cvtColor\<close> rejects \<open>None\<close>, an empty source and a source with the wrong number of
  channels. \<open>np.concatenate(..., axis=1)\<close> of two three-dimensional arrays needs equal
  row and channel counts and adds the column counts.
\<close>

definition float_overflow :: "int \<Rightarrow> bool" where
  "float_overflow a = (2 ^ 1024 - 2 ^ 970 \<le> \<bar>a\<bar>)"

definition getRotationMatrix2D :: "int \<Rightarrow> exn + int" where
  "getRotationMatrix2D angle =
     (if float_overflow angle then Inl OverflowError else Inr angle)"

definition SHRT_MAX :: nat where
  "SHRT_MAX = 32767"

definition warpAffine :: "image option \<Rightarrow> int \<Rightarrow> nat \<times> nat \<Rightarrow> exn + image" where
  "warpAffine src angle dsize =
     (case src of
        None \<Rightarrow> Inl cv2_error
      | Some img \<Rightarrow>
          if img_rows img = 0 \<or> img_cols img = 0 then Inl cv2_error
          else
            let canvas = (if fst dsize = 0 \<or> snd dsize = 0
                          then (img_cols img, img_rows img) else dsize)
            in if SHRT_MAX \<le> img_rows img \<or> SHRT_MAX \<le> img_cols img
                  \<or> SHRT_MAX \<le> fst canvas \<or> SHRT_MAX \<le> snd canvas
               then Inl cv2_error
               else Inr (Image (snd canvas) (fst canvas) (img_chans img)
                           (Warp (img_data img) angle)))"

definition cvtColor_BGR2GRAY :: "image option \<Rightarrow> exn + image" where
  "cvtColor_BGR2GRAY src =
     (case src of
        None \<Rightarrow> Inl cv2_error
      | Some img \<Rightarrow>
          if img_rows img = 0 \<or> img_cols img = 0 then Inl cv2_error
          else if img_chans img = 3 \<or> img_chans img = 4
            then Inr (Image (img_rows img) (img_cols img) 1 (ToGray (img_data img)))
            else Inl cv2_error)"

definition cvtColor_GRAY2BGR :: "image option \<Rightarrow> exn + image" where
  "cvtColor_GRAY2BGR src =
     (case src of
        None \<Rightarrow> Inl cv2_error
      | Some img \<Rightarrow>
          if img_rows img = 0 \<or> img_cols img = 0 then Inl cv2_error
          else if img_chans img = 1
            then Inr (Image (img_rows img) (img_cols img) 3 (ToBGR (img_data img)))
            else Inl cv2_error)"

definition concatenate_axis1 :: "image \<Rightarrow> image \<Rightarrow> exn + image" where
  "concatenate_axis1 a b =
     (if img_rows a = img_rows b \<and> img_chans a = img_chans b
      then Inr (Image (img_rows a) (img_cols a + img_cols b) (img_chans a)
                  (HStack (img_data a) (img_data b)))
      else Inl ValueError)"

subsection \<open>Configuration, engines and the processor object\<close>

text \<open>
  The fields of \<open>EyeTrackCameraConfig\<close> and \<open>EyeTrackSettingsConfig\<close> that
  \<open>eye_processor.py\<close> reads. Both objects are written by the user interface thread; the
  model passes the values read at each point.
\<close>

record EyeTrackCameraConfig =
  roi_window_x :: int
  roi_window_y :: int
  roi_window_w :: int
  roi_window_h :: int
  rotation_angle :: int
  focal_length :: int

record EyeTrackSettingsConfig =
  gui_HSF :: bool
  gui_HSFP :: int
  gui_HSRAC :: bool
  gui_HSRACP :: int
  gui_RANSAC3D :: bool
  gui_RANSAC3DP :: int
  gui_BLOB :: bool
  gui_BLOBP :: int
  gui_skip_autoradius :: bool
  gui_HSF_radius :: int

text \<open>
  A stateful detector engine (\<open>External_Run_HSF\<close>, \<open>External_Run_HSRACS\<close>). The object is
  identified by the number of its construction; its constructor arguments are kept; its
  internal accumulated state is represented by the resolutions (rows, columns) of the
  frames it has been run on since it was built.
\<close>

datatype engine =
  Engine (eng_serial: nat) (eng_skip_autoradius: bool) (eng_radius: int)
    (eng_seen: "(nat \<times> nat) list")

text \<open>\<open>CameraModel(focal_length, resolution)\<close>; \<open>Detector3D\<close> is built around one.\<close>

datatype CameraModel = CameraModel (cam_focal_length: int) (resolution: "int \<times> int")

text \<open>The bound methods that can occupy a slot of the priority table.\<close>

datatype algo = HSFM_ref | HSRACM_ref | RANSAC3DM_ref | BLOBM_ref

text \<open>
  The fields of \<open>EyeProcessor\<close> that \<open>run\<close> and its callees read or write. Two fields are
  not in the source and only observe it: \<open>detector_calls\<close> lists the detector methods in
  the order they were invoked, and \<open>engines_built\<close> counts engine constructions.
\<close>

record EyeProcessor =
  failed :: int
  firstalgo :: "algo option"
  secondalgo :: "algo option"
  thirdalgo :: "algo option"
  fourthalgo :: "algo option"
  er_hsf :: "engine option"
  er_hsrac :: "engine option"
  camera_model :: "CameraModel option"
  detector_3d :: "CameraModel option"
  previous_image :: "image option"
  current_image :: "image option"
  current_image_gray :: "image option"
  current_image_gray_clean :: "image option"
  current_frame_number :: "int option"
  current_fps :: "real option"
  previous_rotation :: int
  image_queue_outgoing :: "(image \<times> EyeInformation) list"
  capture_event :: bool
  eyeopen :: real
  eyeoffx :: real
  prev_x :: "real option"
  prev_y :: "real option"
  detector_calls :: "algo list"
  engines_built :: nat

text \<open>
  The collaborators imported from other modules (\<open>haar_surround_feature\<close>, \<open>hsrac\<close>,
  \<open>ransac\<close>, \<open>blob\<close>, \<open>intensity_eye_open\<close>, \<open>osc_calibrate_filter\<close>, \<open>blink\<close>) are black
  boxes: what each returns in a tick is a parameter. They are taken to return normally
  and to leave the fields above alone, except as the caller assigns their results.
\<close>

record externals =
  hsf_run :: "engine \<Rightarrow> image option \<Rightarrow> real \<times> real \<times> image"
  hsrac_run :: "engine \<Rightarrow> image option \<Rightarrow> real \<times> real \<times> image \<times> image \<times> image"
  RANSAC3D_fn :: "image option \<Rightarrow> real \<times> real \<times> image"
  BLOB_fn :: "image option \<Rightarrow> real \<times> real \<times> image"
  intense :: "real \<Rightarrow> real \<Rightarrow> image option \<Rightarrow> real"
  cal_osc :: "real \<Rightarrow> real \<Rightarrow> real \<times> real"
  BLINK_fn :: "image option \<Rightarrow> real"

section \<open>Output sink and preprocessor\<close>

text \<open>
  \<open>output_images_and_update\<close>: everything inside the \<open>try\<close> is skipped from the first
  statement that raises; the \<open>except\<close> only prints.
\<close>

definition stack_images :: "image option \<Rightarrow> image \<Rightarrow> exn + image" where
  "stack_images gray threshold_image =
     seq (cvtColor_GRAY2BGR gray) (\<lambda>a.
     seq (cvtColor_GRAY2BGR (Some threshold_image)) (\<lambda>b.
     concatenate_axis1 a b))"

definition output_images_and_update ::
  "EyeTrackCameraConfig \<Rightarrow> image \<Rightarrow> EyeInformation \<Rightarrow> EyeProcessor \<Rightarrow> EyeProcessor" where
  "output_images_and_update cfg threshold_image output_information s =
     (case stack_images (current_image_gray s) threshold_image of
        Inr image_stack \<Rightarrow>
          s\<lparr>image_queue_outgoing :=
               image_queue_outgoing s @ [(image_stack, output_information)],
            previous_image := current_image s,
            previous_rotation := rotation_angle cfg\<rparr>
      | Inl e \<Rightarrow> s)"

text \<open>
  \<open>capture_crop_rotate_image\<close>. The first \<open>try\<close> crops; subscripting \<open>None\<close> raises and the
  handler substitutes \<open>previous_image\<close>. The second \<open>try\<close> reads the shape (falling back to
  the shape of \<open>previous_image\<close>), rotates and returns \<open>True\<close>; if anything in it raises the
  function falls off its end and returns \<open>None\<close>, which the caller tests with \<open>not\<close>.
\<close>

definition crop_step :: "EyeTrackCameraConfig \<Rightarrow> EyeProcessor \<Rightarrow> EyeProcessor" where
  "crop_step cfg s =
     (case current_image s of
        Some img \<Rightarrow>
          s\<lparr>current_image :=
               Some (crop img (roi_window_x cfg) (roi_window_y cfg)
                       (roi_window_w cfg) (roi_window_h cfg))\<rparr>
      | None \<Rightarrow> s\<lparr>current_image := previous_image s\<rparr>)"

definition rotate_step :: "EyeTrackCameraConfig \<Rightarrow> EyeProcessor \<Rightarrow> exn + image" where
  "rotate_step cfg s =
     seq (case shape3 (current_image s) of
            Inr rc \<Rightarrow> Inr rc
          | Inl e \<Rightarrow> shape3 (previous_image s)) (\<lambda>rc.
     seq (getRotationMatrix2D (rotation_angle cfg)) (\<lambda>rotation_matrix.
     warpAffine (current_image s) rotation_matrix (snd rc, fst rc)))"

definition capture_crop_rotate_image ::
  "EyeTrackCameraConfig \<Rightarrow> EyeProcessor \<Rightarrow> bool \<times> EyeProcessor" where
  "capture_crop_rotate_image cfg s =
     (let s1 = crop_step cfg s in
      case rotate_step cfg s1 of
        Inr img \<Rightarrow> (True, s1\<lparr>current_image := Some img\<rparr>)
      | Inl e \<Rightarrow> (False, s1))"

section \<open>Detector methods and the scheduler\<close>

definition BLINKM :: "externals \<Rightarrow> EyeProcessor \<Rightarrow> EyeProcessor" where
  "BLINKM ext s = s\<lparr>eyeoffx := BLINK_fn ext (current_image_gray_clean s)\<rparr>"

text \<open>Running an engine on a frame changes the engine's internal state.\<close>

definition engine_ran :: "engine \<Rightarrow> image option \<Rightarrow> engine" where
  "engine_ran e gray =
     (case gray of
        None \<Rightarrow> e
      | Some img \<Rightarrow>
          Engine (eng_serial e) (eng_skip_autoradius e) (eng_radius e)
            (eng_seen e @ [(img_rows img, img_cols img)]))"

definition HSRACM ::
  "externals \<Rightarrow> EyeTrackCameraConfig \<Rightarrow> EyeProcessor \<Rightarrow> exn + EyeProcessor" where
  "HSRACM ext cfg s =
     (case er_hsrac s of
        None \<Rightarrow> Inl AttributeError
      | Some e \<Rightarrow>
          (case hsrac_run ext e (current_image_gray s) of
             (cx, cy, thresh, gray_frame, uncropframe) \<Rightarrow>
               let s1 = s\<lparr>er_hsrac := Some (engine_ran e (current_image_gray s)),
                          current_image_gray := Some gray_frame\<rparr>;
                   s2 = (if prev_x s1 = None
                         then s1\<lparr>prev_x := Some cx, prev_y := Some cy\<rparr> else s1);
                   s3 = s2\<lparr>eyeopen := intense ext cx cy (Some uncropframe)\<rparr>;
                   out = cal_osc ext cx cy
               in if eyeoffx s3 \<noteq> 0
                  then Inr (output_images_and_update cfg thresh
                              (EyeInformation HSRAC (fst out) (snd out) 0 0) s3)
                  else Inr (output_images_and_update cfg thresh
                              (EyeInformation HSRAC (fst out) (snd out) 0 (eyeopen s3)) s3)))"

definition HSFM ::
  "externals \<Rightarrow> EyeTrackCameraConfig \<Rightarrow> EyeProcessor \<Rightarrow> exn + EyeProcessor" where
  "HSFM ext cfg s =
     (case er_hsf s of
        None \<Rightarrow> Inl AttributeError
      | Some e \<Rightarrow>
          (case hsf_run ext e (current_image_gray s) of
             (cx, cy, frame) \<Rightarrow>
               let s1 = s\<lparr>er_hsf := Some (engine_ran e (current_image_gray s))\<rparr>;
                   s2 = s1\<lparr>eyeopen := intense ext cx cy (current_image_gray s1)\<rparr>;
                   out = cal_osc ext cx cy
               in if cx = 0
                  then Inr (output_images_and_update cfg frame
                              (EyeInformation HSF (fst out) (snd out) 0 (eyeopen s2)) s2)
                  else Inr (output_images_and_update cfg frame
                              (EyeInformation HSF (fst out) (snd out) 0 (eyeopen s2)) s2)))"

definition RANSAC3DM ::
  "externals \<Rightarrow> EyeTrackCameraConfig \<Rightarrow> EyeProcessor \<Rightarrow> exn + EyeProcessor" where
  "RANSAC3DM ext cfg s =
     (case RANSAC3D_fn ext (current_image_gray s) of
        (cx, cy, thresh) \<Rightarrow>
          let s1 = s\<lparr>eyeopen := intense ext cx cy (current_image_gray s)\<rparr>;
              out = cal_osc ext cx cy
          in if cx = 0
             then Inr (output_images_and_update cfg thresh
                         (EyeInformation RANSAC (fst out) (snd out) 0 (eyeopen s1)) s1)
             else Inr (output_images_and_update cfg thresh
                         (EyeInformation RANSAC (fst out) (snd out) 0 (eyeopen s1)) s1))"

definition BLOBM ::
  "externals \<Rightarrow> EyeTrackCameraConfig \<Rightarrow> EyeProcessor \<Rightarrow> exn + EyeProcessor" where
  "BLOBM ext cfg s =
     (case BLOB_fn ext (current_image_gray s) of
        (cx, cy, thresh) \<Rightarrow>
          let s1 = s\<lparr>eyeopen := intense ext cx cy (current_image_gray s)\<rparr>;
              out = cal_osc ext cx cy
          in if cx = 0
             then Inr (output_images_and_update cfg thresh
                         (EyeInformation HSRAC (fst out) (snd out) 0 (eyeopen s1)) s1)
             else Inr (output_images_and_update cfg thresh
                         (EyeInformation HSRAC (fst out) (snd out) 0 (eyeopen s1)) s1))"

text \<open>
  Calling the bound callable held in a slot. The call is recorded in \<open>detector_calls\<close>;
  the value it returns is discarded by \<open>ALGOSELECT\<close>.
\<close>

definition invoke ::
  "externals \<Rightarrow> EyeTrackCameraConfig \<Rightarrow> algo \<Rightarrow> EyeProcessor \<Rightarrow> exn + EyeProcessor" where
  "invoke ext cfg m s =
     (let s1 = s\<lparr>detector_calls := detector_calls s @ [m]\<rparr> in
      case m of
        HSFM_ref \<Rightarrow> HSFM ext cfg s1
      | HSRACM_ref \<Rightarrow> HSRACM ext cfg s1
      | RANSAC3DM_ref \<Rightarrow> RANSAC3DM ext cfg s1
      | BLOBM_ref \<Rightarrow> BLOBM ext cfg s1)"

text \<open>
  One of the first three checks of \<open>ALGOSELECT\<close>:
  \<open>if self.failed == k and slot != None: slot() else: self.failed = self.failed + 1\<close>.
\<close>

definition algo_check ::
  "externals \<Rightarrow> EyeTrackCameraConfig \<Rightarrow> int \<Rightarrow> algo option \<Rightarrow> EyeProcessor
     \<Rightarrow> exn + EyeProcessor" where
  "algo_check ext cfg k slot s =
     (case slot of
        Some m \<Rightarrow>
          if failed s = k then invoke ext cfg m s else Inr (s\<lparr>failed := failed s + 1\<rparr>)
      | None \<Rightarrow> Inr (s\<lparr>failed := failed s + 1\<rparr>))"

text \<open>The fourth check, whose \<open>else\<close> resets the counter.\<close>

definition algo_check_last ::
  "externals \<Rightarrow> EyeTrackCameraConfig \<Rightarrow> algo option \<Rightarrow> EyeProcessor
     \<Rightarrow> exn + EyeProcessor" where
  "algo_check_last ext cfg slot s =
     (case slot of
        Some m \<Rightarrow> if failed s = 3 then invoke ext cfg m s else Inr (s\<lparr>failed := 0\<rparr>)
      | None \<Rightarrow> Inr (s\<lparr>failed := 0\<rparr>))"

definition ALGOSELECT ::
  "externals \<Rightarrow> EyeTrackCameraConfig \<Rightarrow> EyeProcessor \<Rightarrow> exn + EyeProcessor" where
  "ALGOSELECT ext cfg s =
     seq (algo_check ext cfg 0 (firstalgo s) s) (\<lambda>s1.
     seq (algo_check ext cfg 1 (secondalgo s1) s1) (\<lambda>s2.
     seq (algo_check ext cfg 2 (thirdalgo s2) s2) (\<lambda>s3.
     algo_check_last ext cfg (fourthalgo s3) s3)))"

section \<open>The worker: \<open>run\<close>\<close>

subsection \<open>Setup: engine handles and the slot table\<close>

text \<open>
  \<open>algolist[i] = v\<close> on a Python list: a negative index counts from the end, and an index
  outside the list raises \<open>IndexError\<close>.
\<close>

definition list_setitem :: "'a list \<Rightarrow> int \<Rightarrow> 'a \<Rightarrow> exn + 'a list" where
  "list_setitem xs i v =
     (let n = int (length xs); j = (if i < 0 then n + i else i)
      in if 0 \<le> j \<and> j < n then Inr (xs[nat j := v]) else Inl IndexError)"

text \<open>The constructor calls \<open>External_Run_HSF(...)\<close> and \<open>External_Run_HSRACS(...)\<close>.\<close>

definition new_engine :: "EyeTrackSettingsConfig \<Rightarrow> EyeProcessor \<Rightarrow> engine" where
  "new_engine st s =
     Engine (engines_built s) (gui_skip_autoradius st) (gui_HSF_radius st) []"

definition setup_HSF ::
  "EyeTrackSettingsConfig \<Rightarrow> algo option list \<times> EyeProcessor
     \<Rightarrow> exn + (algo option list \<times> EyeProcessor)" where
  "setup_HSF st as =
     (case as of (algolist, s) \<Rightarrow>
        if gui_HSF st then
          let s1 = (if er_hsf s = None
                    then s\<lparr>er_hsf := Some (new_engine st s),
                           engines_built := engines_built s + 1\<rparr>
                    else s)
          in seq (list_setitem algolist (gui_HSFP st) (Some HSFM_ref)) (\<lambda>algolist1.
             Inr (algolist1, s1))
        else Inr (algolist, if er_hsf s \<noteq> None then s\<lparr>er_hsf := None\<rparr> else s))"

definition setup_HSRAC ::
  "EyeTrackSettingsConfig \<Rightarrow> algo option list \<times> EyeProcessor
     \<Rightarrow> exn + (algo option list \<times> EyeProcessor)" where
  "setup_HSRAC st as =
     (case as of (algolist, s) \<Rightarrow>
        if gui_HSRAC st then
          let s1 = (if er_hsrac s = None
                    then s\<lparr>er_hsrac := Some (new_engine st s),
                           engines_built := engines_built s + 1\<rparr>
                    else s)
          in seq (list_setitem algolist (gui_HSRACP st) (Some HSRACM_ref)) (\<lambda>algolist1.
             Inr (algolist1, s1))
        else Inr (algolist, if er_hsrac s \<noteq> None then s\<lparr>er_hsrac := None\<rparr> else s))"

text \<open>\<open>_, self.firstalgo, self.secondalgo, self.thirdalgo, self.fourthalgo = algolist\<close>\<close>

definition unpack_algolist ::
  "algo option list \<times> EyeProcessor \<Rightarrow> exn + EyeProcessor" where
  "unpack_algolist as =
     (case as of
        ([u, a, b, c, d], s) \<Rightarrow>
          Inr (s\<lparr>firstalgo := a, secondalgo := b, thirdalgo := c, fourthalgo := d\<rparr>)
      | _ \<Rightarrow> Inl ValueError)"

text \<open>The \<open>if\<close>/\<open>elif\<close> chains that place \<open>RANSAC3DM\<close> and \<open>BLOBM\<close>.\<close>

definition place_method :: "bool \<Rightarrow> int \<Rightarrow> algo \<Rightarrow> EyeProcessor \<Rightarrow> EyeProcessor" where
  "place_method enabled p m s =
     (if enabled \<and> p = 1 then s\<lparr>firstalgo := Some m\<rparr>
      else if enabled \<and> p = 2 then s\<lparr>secondalgo := Some m\<rparr>
      else if enabled \<and> p = 3 then s\<lparr>thirdalgo := Some m\<rparr>
      else if enabled \<and> p = 4 then s\<lparr>fourthalgo := Some m\<rparr>
      else s)"

definition run_setup :: "EyeTrackSettingsConfig \<Rightarrow> EyeProcessor \<Rightarrow> exn + EyeProcessor" where
  "run_setup st s =
     (let s0 = s\<lparr>firstalgo := None, secondalgo := None, thirdalgo := None,
                 fourthalgo := None\<rparr>;
          algolist = [None, None, None, None, None]
      in seq (setup_HSF st (algolist, s0)) (\<lambda>as1.
         seq (setup_HSRAC st as1) (\<lambda>as2.
         seq (unpack_algolist as2) (\<lambda>s3.
         Inr (place_method (gui_BLOB st) (gui_BLOBP st) BLOBM_ref
                (place_method (gui_RANSAC3D st) (gui_RANSAC3DP st) RANSAC3DM_ref s3))))))"

subsection \<open>The processing loop\<close>

text \<open>
  What one iteration of \<open>while True\<close> observes of its environment: the cancellation event
  (\<open>is_set()\<close>, and what \<open>wait(timeout)\<close> returns for a timeout in seconds, should the
  iteration sleep), the camera configuration, the incoming queue (\<open>empty()\<close>, and what
  \<open>get(block=True, timeout)\<close> delivers for a timeout in seconds, \<open>None\<close> standing for
  \<open>queue.Empty\<close>), and the collaborators' results. Both blocking calls return within
  their timeout; the iteration passes the timeouts the source passes.
\<close>

record tick_inputs =
  cancel_is_set :: bool
  cancel_wait :: "real \<Rightarrow> bool"
  config :: EyeTrackCameraConfig
  queue_empty :: bool
  queue_get :: "real \<Rightarrow> (image option \<times> int \<times> real) option"
  collaborators :: externals

datatype tick_result = Return EyeProcessor | Next EyeProcessor | Uncaught exn

text \<open>\<open>If our ROI configuration has changed, reset our model and detector\<close>\<close>

definition reset_model :: "EyeTrackCameraConfig \<Rightarrow> EyeProcessor \<Rightarrow> EyeProcessor" where
  "reset_model cfg s =
     (let fresh = CameraModel (focal_length cfg) (roi_window_w cfg, roi_window_h cfg);
          stale = (case camera_model s of
                     None \<Rightarrow> True
                   | Some cam \<Rightarrow>
                       detector_3d s = None
                       \<or> resolution cam \<noteq> (roi_window_w cfg, roi_window_h cfg))
      in if stale then s\<lparr>camera_model := Some fresh, detector_3d := Some fresh\<rparr> else s)"

text \<open>
  The part of an iteration after a frame has been dequeued: preprocessing, then (unless
  it failed and the iteration is abandoned by \<open>continue\<close>) the grayscale copies, the
  scheduler and the blink classifier. The \<open>cvtColor\<close> call and the scheduler are not
  inside any \<open>try\<close>.
\<close>

definition after_preprocess ::
  "externals \<Rightarrow> EyeTrackCameraConfig \<Rightarrow> EyeProcessor \<Rightarrow> tick_result" where
  "after_preprocess ext cfg s1 =
     (case cvtColor_BGR2GRAY (current_image s1) of
        Inl e \<Rightarrow> Uncaught e
      | Inr gray \<Rightarrow>
          (case ALGOSELECT ext cfg
                  (s1\<lparr>current_image_gray := Some gray,
                      current_image_gray_clean := Some gray\<rparr>) of
             Inl e \<Rightarrow> Uncaught e
           | Inr s2 \<Rightarrow> Next (BLINKM ext s2)))"

definition process_frame ::
  "externals \<Rightarrow> EyeTrackCameraConfig \<Rightarrow> EyeProcessor \<Rightarrow> tick_result" where
  "process_frame ext cfg s =
     (case capture_crop_rotate_image cfg s of
        (ok, s1) \<Rightarrow> if \<not> ok then Next s1 else after_preprocess ext cfg s1)"

text \<open>
  The statements of an iteration between the region-of-interest test and the dequeue
  (the model reset, and \<open>capture_event.set()\<close> when the queue is empty), and the
  assignment of the dequeued tuple.
\<close>

definition await_frame :: "tick_inputs \<Rightarrow> EyeProcessor \<Rightarrow> EyeProcessor" where
  "await_frame i s =
     (let s1 = reset_model (config i) s
      in if queue_empty i then s1\<lparr>capture_event := True\<rparr> else s1)"

definition store_frame :: "image option \<times> int \<times> real \<Rightarrow> EyeProcessor \<Rightarrow> EyeProcessor" where
  "store_frame item s =
     (case item of
        (img, frame_number, fps) \<Rightarrow>
          s\<lparr>current_image := img, current_frame_number := Some frame_number,
            current_fps := Some fps\<rparr>)"

definition tick :: "tick_inputs \<Rightarrow> EyeProcessor \<Rightarrow> tick_result" where
  "tick i s =
     (let cfg = config i in
      if cancel_is_set i then Return s
      else if roi_window_w cfg \<le> 0 \<or> roi_window_h cfg \<le> 0
        then (if cancel_wait i (1 / 10) then Return s else Next s)
      else
        case queue_get i (2 / 10) of
          None \<Rightarrow> Next (await_frame i s)
        | Some item \<Rightarrow>
            process_frame (collaborators i) cfg (store_frame item (await_frame i s)))"

text \<open>
  The loop over the observations of successive iterations. \<open>Pending\<close> is the loop still
  running when the observations given are used up.
\<close>

datatype run_result = Returned EyeProcessor | Died exn | Pending EyeProcessor

fun run_loop :: "tick_inputs list \<Rightarrow> EyeProcessor \<Rightarrow> run_result" where
  "run_loop [] s = Pending s"
| "run_loop (i # rest) s =
     (case tick i s of
        Return s1 \<Rightarrow> Returned s1
      | Next s1 \<Rightarrow> run_loop rest s1
      | Uncaught e \<Rightarrow> Died e)"

definition run ::
  "EyeTrackSettingsConfig \<Rightarrow> tick_inputs list \<Rightarrow> EyeProcessor \<Rightarrow> run_result" where
  "run st inputs s =
     (case run_setup st s of
        Inl e \<Rightarrow> Died e
      | Inr s1 \<Rightarrow> run_loop inputs s1)"

text \<open>The object as \<open>__init__\<close> leaves it, for a configured rotation angle.\<close>

definition init :: "int \<Rightarrow> EyeProcessor" where
  "init angle =
     \<lparr>failed = 0, firstalgo = None, secondalgo = None, thirdalgo = None,
      fourthalgo = None, er_hsf = None, er_hsrac = None, camera_model = None,
      detector_3d = None, previous_image = None, current_image = None,
      current_image_gray = None, current_image_gray_clean = None,
      current_frame_number = None, current_fps = None, previous_rotation = angle,
      image_queue_outgoing = [], capture_event = False, eyeopen = 0, eyeoffx = 1,
      prev_x = None, prev_y = None, detector_calls = [], engines_built = 0\<rparr>"

section \<open>Vocabulary of the properties\<close>

text \<open>The slot table as a list, first slot first.\<close>

definition slot_table :: "EyeProcessor \<Rightarrow> algo option list" where
  "slot_table s = [firstalgo s, secondalgo s, thirdalgo s, fourthalgo s]"

text \<open>
  The slot table as the specification words it: the four algorithms are assigned in the
  fixed order edge-based, hybrid, 3D-model-based, blob-based, each enabled one to the slot
  of its priority, and a later assignment to a slot overwrites an earlier one.
\<close>

definition assignments :: "EyeTrackSettingsConfig \<Rightarrow> (bool \<times> int \<times> algo) list" where
  "assignments st =
     [(gui_HSF st, gui_HSFP st, HSFM_ref), (gui_HSRAC st, gui_HSRACP st, HSRACM_ref),
      (gui_RANSAC3D st, gui_RANSAC3DP st, RANSAC3DM_ref),
      (gui_BLOB st, gui_BLOBP st, BLOBM_ref)]"

definition expected_slot :: "EyeTrackSettingsConfig \<Rightarrow> int \<Rightarrow> algo option" where
  "expected_slot st i =
     (case filter (\<lambda>a. fst a \<and> fst (snd a) = i) (assignments st) of
        [] \<Rightarrow> None
      | a # as \<Rightarrow> Some (snd (snd (last (a # as)))))"

text \<open>Auxiliary: the slots after the two list assignments, and one such assignment.\<close>

definition expected_hs :: "EyeTrackSettingsConfig \<Rightarrow> int \<Rightarrow> algo option" where
  "expected_hs st i =
     (if gui_HSRAC st \<and> gui_HSRACP st = i then Some HSRACM_ref
      else if gui_HSF st \<and> gui_HSFP st = i then Some HSFM_ref
      else None)"

definition written ::
  "bool \<Rightarrow> int \<Rightarrow> algo \<Rightarrow> algo option list \<Rightarrow> algo option list" where
  "written en p m al = (if en then al[nat p := Some m] else al)"

text \<open>
  What a detector call leaves alone: the cascade counter, the four slots, the number
  of engines built, the 3D model and detector, and the current colour frame.
\<close>

definition untouched :: "EyeProcessor \<Rightarrow> EyeProcessor \<Rightarrow> bool" where
  "untouched s s' =
     (failed s' = failed s \<and> firstalgo s' = firstalgo s \<and> secondalgo s' = secondalgo s
      \<and> thirdalgo s' = thirdalgo s \<and> fourthalgo s' = fourthalgo s
      \<and> engines_built s' = engines_built s
      \<and> camera_model s' = camera_model s \<and> detector_3d s' = detector_3d s
      \<and> current_image s' = current_image s)"

text \<open>
  Which engine object a handle refers to: its construction number and constructor
  arguments, whatever state it has accumulated.
\<close>

definition engine_id :: "engine option \<Rightarrow> (nat \<times> bool \<times> int) option" where
  "engine_id h = map_option (\<lambda>e. (eng_serial e, eng_skip_autoradius e, eng_radius e)) h"

text \<open>
  What setup leaves behind an engine handle: for an enabled algorithm the engine already
  there or else a fresh one, for a disabled algorithm nothing.
\<close>

definition handle_after_setup :: "bool \<Rightarrow> engine option \<Rightarrow> engine \<Rightarrow> engine option" where
  "handle_after_setup enabled handle fresh =
     (if enabled then (case handle of None \<Rightarrow> Some fresh | Some e \<Rightarrow> Some e) else None)"

text \<open>
  Two states of the processor have the same slot table, the same engine objects behind
  both engine handles, and the same number of engines built.
\<close>

definition same_table_and_handles :: "EyeProcessor \<Rightarrow> EyeProcessor \<Rightarrow> bool" where
  "same_table_and_handles s s' =
     (slot_table s' = slot_table s
      \<and> engine_id (er_hsf s') = engine_id (er_hsf s)
      \<and> engine_id (er_hsrac s') = engine_id (er_hsrac s)
      \<and> engines_built s' = engines_built s)"

text \<open>
  An iteration that finds the region of interest unconfigured, and one in which
  cancellation is observed by either poll (\<open>is_set()\<close>, or \<open>wait(0.1)\<close> while sleeping).
\<close>

definition roi_unset :: "tick_inputs \<Rightarrow> bool" where
  "roi_unset i = (roi_window_w (config i) \<le> 0 \<or> roi_window_h (config i) \<le> 0)"

definition cancelled :: "tick_inputs \<Rightarrow> bool" where
  "cancelled i = (cancel_is_set i \<or> cancel_wait i (1 / 10))"

text \<open>
  A frame that preprocessing and the grayscale conversion can work on (non-empty, three
  or four channels), or no frame at all; the states the processor can be in at the head
  of a loop iteration, in any sequence of calls of \<open>run\<close> on a fresh object; and the effect
  of a detector call on the frames: the current frame stays, and the accepted frame
  either stays or becomes the current one.
\<close>

definition usable :: "image option \<Rightarrow> bool" where
  "usable a =
     (case a of
        None \<Rightarrow> True
      | Some p \<Rightarrow>
          0 < img_rows p \<and> 0 < img_cols p \<and> img_rows p < SHRT_MAX \<and> img_cols p < SHRT_MAX
          \<and> (img_chans p = 3 \<or> img_chans p = 4))"

definition fits :: "image option \<Rightarrow> bool" where
  "fits a =
     (case a of
        None \<Rightarrow> True
      | Some p \<Rightarrow> img_rows p < SHRT_MAX \<and> img_cols p < SHRT_MAX)"

inductive reachable :: "EyeProcessor \<Rightarrow> bool" where
  at_init: "reachable (init angle)"
| after_setup: "reachable s \<Longrightarrow> run_setup st s = Inr s' \<Longrightarrow> reachable s'"
| after_tick: "reachable s \<Longrightarrow> tick i s = Next s' \<Longrightarrow> reachable s'"

definition accepts :: "EyeProcessor \<Rightarrow> EyeProcessor \<Rightarrow> bool" where
  "accepts s s' =
     (current_image s' = current_image s
      \<and> (previous_image s' = previous_image s \<or> previous_image s' = current_image s))"

text \<open>The rotation of a frame on a canvas of its own size.\<close>

definition rotated :: "int \<Rightarrow> image \<Rightarrow> image" where
  "rotated angle p =
     Image (img_rows p) (img_cols p) (img_chans p) (Warp (img_data p) angle)"

subsection \<open>Concrete inputs\<close>

definition sample_settings :: EyeTrackSettingsConfig where
  "sample_settings =
     \<lparr>gui_HSF = True, gui_HSFP = 2, gui_HSRAC = False, gui_HSRACP = 1,
      gui_RANSAC3D = True, gui_RANSAC3DP = 4, gui_BLOB = True, gui_BLOBP = 2,
      gui_skip_autoradius = False, gui_HSF_radius = 10\<rparr>"

text \<open>A processor whose only occupied slot is the fourth.\<close>

definition only_fourth_slot :: EyeProcessor where
  "only_fourth_slot = (init 0)\<lparr>fourthalgo := Some BLOBM_ref\<rparr>"

text \<open>
  A 100 by 100 colour frame from the camera, a 100 by 100 single-channel diagnostic
  frame, a camera configuration with a given region of interest (rotation 0), the
  observations of an iteration that dequeues the colour frame, and settings that enable
  a chosen set of algorithms, each at priority 1.
\<close>

definition frame100 :: image where
  "frame100 = Image 100 100 3 (Captured 0)"

definition thresh100 :: image where
  "thresh100 = Image 100 100 1 (Captured 1)"

definition roi :: "int \<Rightarrow> int \<Rightarrow> int \<Rightarrow> int \<Rightarrow> EyeTrackCameraConfig" where
  "roi x y w h =
     \<lparr>roi_window_x = x, roi_window_y = y, roi_window_w = w, roi_window_h = h,
      rotation_angle = 0, focal_length = 30\<rparr>"

definition frame_tick :: "EyeTrackCameraConfig \<Rightarrow> externals \<Rightarrow> tick_inputs" where
  "frame_tick cfg ext =
     \<lparr>cancel_is_set = False, cancel_wait = \<lambda>timeout. False, config = cfg,
      queue_empty = False, queue_get = \<lambda>timeout. Some (Some frame100, 1, 30),
      collaborators = ext\<rparr>"

definition only_enabled :: "bool \<Rightarrow> bool \<Rightarrow> bool \<Rightarrow> bool \<Rightarrow> EyeTrackSettingsConfig" where
  "only_enabled hsf hsrac ransac blob =
     \<lparr>gui_HSF = hsf, gui_HSFP = 1, gui_HSRAC = hsrac, gui_HSRACP = 1,
      gui_RANSAC3D = ransac, gui_RANSAC3DP = 1, gui_BLOB = blob, gui_BLOBP = 1,
      gui_skip_autoradius = False, gui_HSF_radius = 10\<rparr>"

text \<open>
  When the output sink can build the side-by-side image: there is a grayscale frame, it
  and the diagnostic frame are non-empty and single-channel, and they have the same
  number of rows. Their widths play no part.
\<close>

definition stackable :: "image option \<Rightarrow> image \<Rightarrow> bool" where
  "stackable gray thr =
     (case gray of
        None \<Rightarrow> False
      | Some g \<Rightarrow>
          0 < img_rows g \<and> 0 < img_cols g \<and> img_chans g = 1
          \<and> 0 < img_rows thr \<and> 0 < img_cols thr \<and> img_chans thr = 1
          \<and> img_rows g = img_rows thr)"

text \<open>
  A grayscale working frame, diagnostic frames narrower and shorter than it, a gaze
  record, and a processor holding the colour and grayscale frames of a tick.
\<close>

definition gray100 :: image where
  "gray100 = Image 100 100 1 (ToGray (Captured 0))"

definition thresh_narrow :: image where
  "thresh_narrow = Image 100 50 1 (Captured 2)"

definition thresh_short :: image where
  "thresh_short = Image 50 100 1 (Captured 3)"

definition sample_info :: EyeInformation where
  "sample_info = EyeInformation HSF 1 2 0 0"

definition gray_state :: EyeProcessor where
  "gray_state = (init 0)\<lparr>current_image := Some frame100, current_image_gray := Some gray100\<rparr>"

text \<open>
  Collaborators that always find the pupil at (50, 50), and the processor as setup leaves
  it when only the edge-based algorithm is enabled.
\<close>

definition sample_ext :: externals where
  "sample_ext =
     \<lparr>hsf_run = \<lambda>e g. (50, 50, thresh100),
      hsrac_run = \<lambda>e g. (50, 50, thresh100, gray100, gray100),
      RANSAC3D_fn = \<lambda>g. (50, 50, thresh100),
      BLOB_fn = \<lambda>g. (50, 50, thresh100),
      intense = \<lambda>cx cy g. 1,
      cal_osc = \<lambda>cx cy. (cx / 100, cy / 100),
      BLINK_fn = \<lambda>g. 0\<rparr>"

definition hsf_ready :: EyeProcessor where
  "hsf_ready =
     (init 0)\<lparr>firstalgo := Some HSFM_ref, er_hsf := Some (Engine 0 False 10 []),
       engines_built := 1\<rparr>"

text \<open>
  An iteration with an unconfigured region of interest, in which the sleep is or is not
  cut short by cancellation.
\<close>

definition idle_tick :: "bool \<Rightarrow> tick_inputs" where
  "idle_tick woken =
     \<lparr>cancel_is_set = False, cancel_wait = \<lambda>timeout. woken, config = roi 0 0 0 0,
      queue_empty = True, queue_get = \<lambda>timeout. None, collaborators = sample_ext\<rparr>"

text \<open>
  An iteration whose dequeued frame is invalid, so that the crop raises, and the frame
  accepted after a 100 by 100 frame went through with the full region of interest.
\<close>

definition lost_frame_tick :: tick_inputs where
  "lost_frame_tick =
     \<lparr>cancel_is_set = False, cancel_wait = \<lambda>timeout. False, config = roi 0 0 100 100,
      queue_empty = False, queue_get = \<lambda>timeout. Some (None, 2, 30),
      collaborators = sample_ext\<rparr>"

definition accepted100 :: image where
  "accepted100 = Image 100 100 3 (Warp (Crop (Captured 0) 0 100 0 100) 0)"

text \<open>
  The processor as setup leaves it when the edge-based and the hybrid algorithm are both
  enabled, and the processor after the first iteration of the loop has put a 100 by 100
  frame through the edge-based detector.
\<close>

definition both_ready :: EyeProcessor where
  "both_ready =
     (init 0)\<lparr>firstalgo := Some HSRACM_ref, er_hsf := Some (Engine 0 False 10 []),
       er_hsrac := Some (Engine 1 False 10 []), engines_built := 2\<rparr>"

definition after_first_tick :: EyeProcessor where
  "after_first_tick =
     hsf_ready
       \<lparr>er_hsf := Some (Engine 0 False 10 [(100, 100)]),
        camera_model := Some (CameraModel 30 (100, 100)),
        detector_3d := Some (CameraModel 30 (100, 100)),
        previous_image := Some accepted100,
        current_image := Some accepted100,
        current_image_gray :=
          Some (Image 100 100 1 (ToGray (Warp (Crop (Captured 0) 0 100 0 100) 0))),
        current_image_gray_clean :=
          Some (Image 100 100 1 (ToGray (Warp (Crop (Captured 0) 0 100 0 100) 0))),
        current_frame_number := Some 1,
        current_fps := Some 30,
        image_queue_outgoing :=
          [(Image 100 200 3
              (HStack (ToBGR (ToGray (Warp (Crop (Captured 0) 0 100 0 100) 0)))
                 (ToBGR (Captured 1))),
            EyeInformation HSF (1 / 2) (1 / 2) 0 1)],
        eyeopen := 1,
        eyeoffx := 0,
        detector_calls := [HSFM_ref]\<rparr>"

section \<open>Properties\<close>

subsection \<open>What the detector methods leave alone\<close>

lemma engine_id_ran: "engine_id (Some (engine_ran e g)) = engine_id (Some e)"
  by (simp add: engine_id_def engine_ran_def split: option.splits)

lemma output_untouched:
  "untouched s (output_images_and_update cfg thr info s)"
  "er_hsf (output_images_and_update cfg thr info s) = er_hsf s"
  "er_hsrac (output_images_and_update cfg thr info s) = er_hsrac s"
  "detector_calls (output_images_and_update cfg thr info s) = detector_calls s"
  by (simp_all add: output_images_and_update_def untouched_def split: sum.splits)

lemma output_frame:
  "untouched s0 (output_images_and_update cfg thr info s) = untouched s0 s"
  by (simp add: output_images_and_update_def untouched_def split: sum.splits)

lemma untouched_simps [simp]:
  "untouched s s"
  "untouched s (s1\<lparr>eyeopen := v\<rparr>) = untouched s s1"
  "untouched s (s1\<lparr>er_hsf := h\<rparr>) = untouched s s1"
  "untouched s (s1\<lparr>er_hsrac := h\<rparr>) = untouched s s1"
  "untouched s (s1\<lparr>current_image_gray := g\<rparr>) = untouched s s1"
  "untouched s (s1\<lparr>prev_x := px\<rparr>) = untouched s s1"
  "untouched s (s1\<lparr>prev_y := py\<rparr>) = untouched s s1"
  "untouched s (s1\<lparr>detector_calls := c\<rparr>) = untouched s s1"
  by (simp_all add: untouched_def)

lemma untouched_trans: "untouched a b \<Longrightarrow> untouched b c \<Longrightarrow> untouched a c"
  by (simp add: untouched_def)

lemma HSFM_frame:
  assumes "HSFM ext cfg s = Inr s'"
  shows "untouched s s' \<and> engine_id (er_hsf s') = engine_id (er_hsf s)
         \<and> er_hsrac s' = er_hsrac s \<and> detector_calls s' = detector_calls s"
  using assms
  by (auto simp: HSFM_def Let_def output_frame output_untouched engine_id_ran
      split: option.splits prod.splits)

lemma HSRACM_frame:
  assumes "HSRACM ext cfg s = Inr s'"
  shows "untouched s s' \<and> er_hsf s' = er_hsf s
         \<and> engine_id (er_hsrac s') = engine_id (er_hsrac s)
         \<and> detector_calls s' = detector_calls s"
  using assms
  by (auto simp: HSRACM_def Let_def output_frame output_untouched engine_id_ran
      split: option.splits prod.splits if_splits)

lemma RANSAC3DM_frame:
  assumes "RANSAC3DM ext cfg s = Inr s'"
  shows "untouched s s' \<and> er_hsf s' = er_hsf s \<and> er_hsrac s' = er_hsrac s
         \<and> detector_calls s' = detector_calls s"
  using assms
  by (auto simp: RANSAC3DM_def Let_def output_frame output_untouched split: prod.splits)

lemma BLOBM_frame:
  assumes "BLOBM ext cfg s = Inr s'"
  shows "untouched s s' \<and> er_hsf s' = er_hsf s \<and> er_hsrac s' = er_hsrac s
         \<and> detector_calls s' = detector_calls s"
  using assms
  by (auto simp: BLOBM_def Let_def output_frame output_untouched split: prod.splits)

lemma invoke_frame:
  assumes "invoke ext cfg m s = Inr s'"
  shows "untouched s s'"
    and "engine_id (er_hsf s') = engine_id (er_hsf s)"
    and "engine_id (er_hsrac s') = engine_id (er_hsrac s)"
    and "detector_calls s' = detector_calls s @ [m]"
proof -
  let ?s1 = "s\<lparr>detector_calls := detector_calls s @ [m]\<rparr>"
  have u: "untouched s ?s1" by (simp add: untouched_def)
  have "untouched ?s1 s' \<and> engine_id (er_hsf s') = engine_id (er_hsf ?s1)
        \<and> engine_id (er_hsrac s') = engine_id (er_hsrac ?s1)
        \<and> detector_calls s' = detector_calls ?s1"
    using assms HSFM_frame [of ext cfg ?s1 s'] HSRACM_frame [of ext cfg ?s1 s']
      RANSAC3DM_frame [of ext cfg ?s1 s'] BLOBM_frame [of ext cfg ?s1 s']
    by (cases m) (simp_all add: invoke_def Let_def)
  then show "untouched s s'" and "engine_id (er_hsf s') = engine_id (er_hsf s)"
    and "engine_id (er_hsrac s') = engine_id (er_hsrac s)"
    and "detector_calls s' = detector_calls s @ [m]"
    using untouched_trans [OF u] by simp_all
qed

subsection \<open>Construction of the slot table\<close>

lemma expected_slot_chain:
  "expected_slot st i =
     (if gui_BLOB st \<and> gui_BLOBP st = i then Some BLOBM_ref
      else if gui_RANSAC3D st \<and> gui_RANSAC3DP st = i then Some RANSAC3DM_ref
      else if gui_HSRAC st \<and> gui_HSRACP st = i then Some HSRACM_ref
      else if gui_HSF st \<and> gui_HSFP st = i then Some HSFM_ref
      else None)"
  by (simp add: expected_slot_def assignments_def)

lemma place_method_slots:
  "slot_table (place_method en p m s) =
     map (\<lambda>k. if en \<and> p = int k then Some m else slot_table s ! (k - 1)) [1, 2, 3, 4]"
  by (simp add: place_method_def slot_table_def)

lemma unpack_slots:
  "length al = 5 \<Longrightarrow> \<exists>s'. unpack_algolist (al, s) = Inr s' \<and> slot_table s' = tl al"
  by (auto simp: unpack_algolist_def slot_table_def length_Suc_conv eval_nat_numeral)

lemma setitem_len5:
  "length al = 5 \<Longrightarrow> p \<in> {1..4} \<Longrightarrow> list_setitem al p v = Inr (al[nat p := v])"
  by (auto simp: list_setitem_def)

lemma length_written: "length (written en p m al) = length al"
  by (simp add: written_def)

lemma nth_written:
  "1 \<le> p \<Longrightarrow> k < length al \<Longrightarrow>
   written en p m al ! k = (if en \<and> p = int k then Some m else al ! k)"
  by (auto simp: written_def nth_list_update)

lemma setup_HSF_rank:
  assumes "gui_HSFP st \<in> {1..4}" and "length al = 5"
  shows "\<exists>s'. setup_HSF st (al, s) =
           Inr (written (gui_HSF st) (gui_HSFP st) HSFM_ref al, s')"
  using assms by (simp add: setup_HSF_def setitem_len5 seq_def Let_def written_def)

lemma setup_HSRAC_rank:
  assumes "gui_HSRACP st \<in> {1..4}" and "length al = 5"
  shows "\<exists>s'. setup_HSRAC st (al, s) =
           Inr (written (gui_HSRAC st) (gui_HSRACP st) HSRACM_ref al, s')"
  using assms by (simp add: setup_HSRAC_def setitem_len5 seq_def Let_def written_def)

text \<open>
  C2. For every combination of the four enable flags and of priorities in 1..4, and from
  every state of the processor, setup raises nothing and leaves in each slot the
  algorithm the specification names: the enabled algorithm configured with that priority,
  the latest in the order HSF, HSRAC, RANSAC3D, BLOB when several share it, and nothing
  when none has it. The table depends on the settings alone.
\<close>

theorem slot_table_construction:
  assumes r1: "gui_HSFP st \<in> {1..4}" and r2: "gui_HSRACP st \<in> {1..4}"
    and r3: "gui_RANSAC3DP st \<in> {1..4}" and r4: "gui_BLOBP st \<in> {1..4}"
  shows "case run_setup st s of
           Inl e \<Rightarrow> False
         | Inr s' \<Rightarrow> slot_table s' = map (expected_slot st) [1, 2, 3, 4]"
proof -
  define s0 where "s0 = s\<lparr>firstalgo := None, secondalgo := None, thirdalgo := None,
    fourthalgo := None\<rparr>"
  define al1 where
    "al1 = written (gui_HSF st) (gui_HSFP st) HSFM_ref [None, None, None, None, None]"
  define al2 where "al2 = written (gui_HSRAC st) (gui_HSRACP st) HSRACM_ref al1"
  have len1: "length al1 = 5" and len2: "length al2 = 5"
    by (simp_all add: al1_def al2_def length_written)
  obtain s1 where 1: "setup_HSF st ([None, None, None, None, None], s0) = Inr (al1, s1)"
    using setup_HSF_rank [OF r1, of "[None, None, None, None, None]" s0]
    by (auto simp: al1_def)
  obtain s2 where 2: "setup_HSRAC st (al1, s1) = Inr (al2, s2)"
    using setup_HSRAC_rank [OF r2 len1, of s1] by (auto simp: al2_def)
  obtain s3 where 3: "unpack_algolist (al2, s2) = Inr s3" and t3: "slot_table s3 = tl al2"
    using unpack_slots [OF len2, of s2] by auto
  have run: "run_setup st s =
      Inr (place_method (gui_BLOB st) (gui_BLOBP st) BLOBM_ref
            (place_method (gui_RANSAC3D st) (gui_RANSAC3DP st) RANSAC3DM_ref s3))"
    by (simp add: run_setup_def Let_def seq_def 1 2 3 flip: s0_def)
  have nth2: "al2 ! k = (if gui_HSRAC st \<and> gui_HSRACP st = int k then Some HSRACM_ref
                         else if gui_HSF st \<and> gui_HSFP st = int k then Some HSFM_ref
                         else [None, None, None, None, None] ! k)" if "k < 5" for k
  proof -
    have a: "1 \<le> gui_HSFP st" and b: "1 \<le> gui_HSRACP st" using r1 r2 by simp_all
    have "al2 ! k =
        (if gui_HSRAC st \<and> gui_HSRACP st = int k then Some HSRACM_ref else al1 ! k)"
      unfolding al2_def using that len1 by (simp only: nth_written [OF b])
    moreover have "al1 ! k = (if gui_HSF st \<and> gui_HSFP st = int k then Some HSFM_ref
                         else [None, None, None, None, None] ! k)"
      unfolding al1_def using that by (subst nth_written [OF a]) simp_all
    ultimately show ?thesis by simp
  qed
  have tl2: "tl al2 = [al2 ! 1, al2 ! 2, al2 ! 3, al2 ! 4]"
    using len2 by (auto simp: length_Suc_conv eval_nat_numeral)
  have slots3: "slot_table s3 = map (expected_hs st) [1, 2, 3, 4]"
    by (simp add: t3 tl2 nth2 expected_hs_def split del: if_split cong: if_cong)
  show ?thesis
    unfolding run sum.case place_method_slots slots3
    by (simp add: expected_slot_chain expected_hs_def split del: if_split cong: if_cong)
qed

text \<open>
  At settings where HSF and BLOB are both enabled with priority 2 and RANSAC3D has
  priority 4: BLOB, the later one, holds slot 2.
\<close>

theorem slot_table_construction_witness:
  "gui_HSFP sample_settings \<in> {1..4} \<and> gui_HSRACP sample_settings \<in> {1..4}
   \<and> gui_RANSAC3DP sample_settings \<in> {1..4} \<and> gui_BLOBP sample_settings \<in> {1..4}
   \<and> (case run_setup sample_settings (init 0) of
         Inl e \<Rightarrow> False
       | Inr s' \<Rightarrow> slot_table s' = [None, Some BLOBM_ref, None, Some RANSAC3DM_ref])"
proof -
  have e: "map (expected_slot sample_settings) [1, 2, 3, 4]
             = [None, Some BLOBM_ref, None, Some RANSAC3DM_ref]"
    by (simp add: expected_slot_def assignments_def sample_settings_def)
  have r: "gui_HSFP sample_settings \<in> {1..4}" "gui_HSRACP sample_settings \<in> {1..4}"
    "gui_RANSAC3DP sample_settings \<in> {1..4}" "gui_BLOBP sample_settings \<in> {1..4}"
    by (simp_all add: sample_settings_def)
  show ?thesis
    using slot_table_construction [OF r, of "init 0", unfolded e] r by simp
qed

subsection \<open>The scheduler\<close>

lemma seq_Inr [simp]: "seq (Inr v) k = k v"
  by (simp add: seq_def)

lemma seq_Inl [simp]: "seq (Inl e) k = Inl e"
  by (simp add: seq_def)

lemma algo_check_skip:
  "slot = None \<or> failed s \<noteq> k \<Longrightarrow>
   algo_check ext cfg k slot s = Inr (s\<lparr>failed := failed s + 1\<rparr>)"
  by (auto simp: algo_check_def split: option.splits)

lemma algo_check_hit:
  "failed s = k \<Longrightarrow> algo_check ext cfg k (Some m) s = invoke ext cfg m s"
  by (simp add: algo_check_def)

lemma algo_check_last_skip:
  "slot = None \<or> failed s \<noteq> 3 \<Longrightarrow>
   algo_check_last ext cfg slot s = Inr (s\<lparr>failed := 0\<rparr>)"
  by (auto simp: algo_check_last_def split: option.splits)

lemma algo_check_last_hit:
  "failed s = 3 \<Longrightarrow> algo_check_last ext cfg (Some m) s = invoke ext cfg m s"
  by (simp add: algo_check_last_def)

lemma slot_table_failed: "slot_table (s\<lparr>failed := v\<rparr>) = slot_table s"
  by (simp add: slot_table_def)

text \<open>From a counter of 3 nothing is invoked, whatever the slots hold.\<close>

lemma ALGOSELECT_from_three:
  "failed s = 3 \<Longrightarrow> ALGOSELECT ext cfg s = Inr (s\<lparr>failed := 0\<rparr>)"
  by (simp add: ALGOSELECT_def algo_check_skip algo_check_last_skip)

text \<open>
  With only the fourth slot occupied and the counter at 0, the fourth slot is invoked
  with the counter at 3, and nothing resets the counter afterwards.
\<close>

lemma ALGOSELECT_fourth_only:
  assumes "failed s = 0" "firstalgo s = None" "secondalgo s = None" "thirdalgo s = None"
    "fourthalgo s = Some m"
  shows "ALGOSELECT ext cfg s = invoke ext cfg m (s\<lparr>failed := 3\<rparr>)"
  using assms by (simp add: ALGOSELECT_def algo_check_skip algo_check_last_hit)

lemma ALGOSELECT_all_empty:
  assumes "failed s = 0" "firstalgo s = None" "secondalgo s = None" "thirdalgo s = None"
    "fourthalgo s = None"
  shows "ALGOSELECT ext cfg s = Inr s"
  using assms by (simp add: ALGOSELECT_def algo_check_skip algo_check_last_skip)

text \<open>
  With the counter at 0 and one of the first three slots occupied, the scheduler invokes
  exactly the first occupied slot, and the counter is 0 afterwards.
\<close>

lemma ALGOSELECT_first:
  assumes "failed s = 0" "firstalgo s = Some m" "invoke ext cfg m s = Inr s1"
  shows "ALGOSELECT ext cfg s = Inr s1"
proof -
  have u: "untouched s s1" using invoke_frame(1) [OF assms(3)] .
  then have f: "failed s1 = 0" using assms(1) by (simp add: untouched_def)
  have "ALGOSELECT ext cfg s = Inr (s1\<lparr>failed := 0\<rparr>)"
    using assms f by (simp add: ALGOSELECT_def algo_check_hit algo_check_skip
        algo_check_last_skip)
  then show ?thesis using f by simp
qed

lemma ALGOSELECT_second:
  assumes "failed s = 0" "firstalgo s = None" "secondalgo s = Some m"
    "invoke ext cfg m (s\<lparr>failed := 1\<rparr>) = Inr s1"
  shows "ALGOSELECT ext cfg s = Inr (s1\<lparr>failed := 0\<rparr>)"
proof -
  have u: "untouched (s\<lparr>failed := 1\<rparr>) s1" using invoke_frame(1) [OF assms(4)] .
  then have f: "failed s1 = 1" by (simp add: untouched_def)
  show ?thesis
    using assms f by (simp add: ALGOSELECT_def algo_check_hit algo_check_skip
        algo_check_last_skip)
qed

lemma ALGOSELECT_third:
  assumes "failed s = 0" "firstalgo s = None" "secondalgo s = None" "thirdalgo s = Some m"
    "invoke ext cfg m (s\<lparr>failed := 2\<rparr>) = Inr s1"
  shows "ALGOSELECT ext cfg s = Inr (s1\<lparr>failed := 0\<rparr>)"
proof -
  have u: "untouched (s\<lparr>failed := 2\<rparr>) s1" using invoke_frame(1) [OF assms(5)] .
  then have f: "failed s1 = 2" by (simp add: untouched_def)
  show ?thesis
    using assms f by (simp add: ALGOSELECT_def algo_check_hit algo_check_skip
        algo_check_last_skip)
qed

lemma invoke_BLOBM_returns: "\<exists>s1. invoke ext cfg BLOBM_ref s = Inr s1"
  by (simp add: invoke_def BLOBM_def Let_def split: prod.splits)

text \<open>
  C1. The scheduler on the slot table whose only occupied slot is the fourth, starting
  from the counter value 0 of a fresh processor, whatever the collaborators return: the
  first call invokes the fourth slot once and ends with the counter at 3, not 0; the next
  call, from that counter, invokes no detector at all although a slot is occupied, and
  only then is the counter 0 again. The slot table is the same throughout.
\<close>

theorem ALGOSELECT_only_fourth_slot:
  "case ALGOSELECT ext cfg only_fourth_slot of
     Inl e \<Rightarrow> False
   | Inr s1 \<Rightarrow>
       failed s1 = 3 \<and> detector_calls s1 = [BLOBM_ref]
       \<and> slot_table s1 = [None, None, None, Some BLOBM_ref]
       \<and> (case ALGOSELECT ext cfg s1 of
             Inl e \<Rightarrow> False
           | Inr s2 \<Rightarrow>
               failed s2 = 0 \<and> detector_calls s2 = [BLOBM_ref]
               \<and> slot_table s2 = [None, None, None, Some BLOBM_ref])"
proof -
  let ?s = "only_fourth_slot\<lparr>failed := 3\<rparr>"
  have a: "ALGOSELECT ext cfg only_fourth_slot = invoke ext cfg BLOBM_ref ?s"
    by (rule ALGOSELECT_fourth_only) (simp_all add: only_fourth_slot_def init_def)
  obtain s1 where i: "invoke ext cfg BLOBM_ref ?s = Inr s1"
    using invoke_BLOBM_returns by blast
  have u: "untouched ?s s1" and c: "detector_calls s1 = detector_calls ?s @ [BLOBM_ref]"
    using invoke_frame [OF i] by simp_all
  have f: "failed s1 = 3" using u by (simp add: untouched_def)
  have t: "slot_table s1 = [None, None, None, Some BLOBM_ref]"
    using u by (simp add: untouched_def slot_table_def only_fourth_slot_def init_def)
  have c1: "detector_calls s1 = [BLOBM_ref]"
    using c by (simp add: only_fourth_slot_def init_def)
  show ?thesis
    by (simp add: a i f t c1 ALGOSELECT_from_three [OF f] slot_table_failed)
qed

subsection \<open>Single frames through the whole worker\<close>

lemma float_overflow_0 [simp]: "\<not> float_overflow 0"
  by (simp add: float_overflow_def)

lemmas tick_defs = tick_def getRotationMatrix2D_def SHRT_MAX_def await_frame_def store_frame_def process_frame_def after_preprocess_def reset_model_def
  capture_crop_rotate_image_def
  crop_step_def rotate_step_def crop_def shape3_def warpAffine_def cvtColor_BGR2GRAY_def
  cvtColor_GRAY2BGR_def concatenate_axis1_def stack_images_def output_images_and_update_def
  ALGOSELECT_def algo_check_def algo_check_last_def invoke_def BLINKM_def seq_def Let_def
  slice_len_def slice_index_def engine_ran_def

lemma setup_only_blob:
  "run_setup (only_enabled False False False True) (init 0)
     = Inr ((init 0)\<lparr>firstalgo := Some BLOBM_ref\<rparr>)"
  by (simp add: only_enabled_def run_setup_def setup_HSF_def setup_HSRAC_def
      list_setitem_def seq_def Let_def unpack_algolist_def place_method_def init_def)

lemma setup_only_ransac:
  "run_setup (only_enabled False False True False) (init 0)
     = Inr ((init 0)\<lparr>firstalgo := Some RANSAC3DM_ref\<rparr>)"
  by (simp add: only_enabled_def run_setup_def setup_HSF_def setup_HSRAC_def
      list_setitem_def seq_def Let_def unpack_algolist_def place_method_def init_def)

lemma setup_only_hsf:
  "run_setup (only_enabled True False False False) (init 0)
     = Inr ((init 0)\<lparr>firstalgo := Some HSFM_ref, er_hsf := Some (Engine 0 False 10 []),
              engines_built := 1\<rparr>)"
  by (simp add: only_enabled_def run_setup_def setup_HSF_def setup_HSRAC_def new_engine_def
      list_setitem_def seq_def Let_def unpack_algolist_def place_method_def init_def)

text \<open>
  C3. Scenario A: only the blob-based algorithm enabled, at priority 1, region of interest
  (0, 0, 100, 100), rotation 0, one 100 by 100 frame, the blob detector returning any
  coordinates and a diagnostic frame of the frame's size. The worker emits one record,
  and its origin tag is \<open>HSRAC\<close>, the hybrid algorithm's, not \<open>BLOB\<close>.
\<close>

theorem blob_record_origin:
  "case run (only_enabled False False False True)
          [frame_tick (roi 0 0 100 100) (ext\<lparr>BLOB_fn := \<lambda>g. (cx, cy, thresh100)\<rparr>)]
          (init 0) of
     Pending s \<Rightarrow> map (\<lambda>r. info_type (snd r)) (image_queue_outgoing s) = [HSRAC]
   | Returned s \<Rightarrow> False
   | Died e \<Rightarrow> False"
  unfolding run_def setup_only_blob sum.case
  by (simp add: frame_tick_def roi_def frame100_def thresh100_def
      init_def tick_defs BLOBM_def)

text \<open>
  C5. A tick in which the chosen detector (here the 3D-model-based one, alone at priority
  1) returns the sentinel (0, 0): the record emitted carries the detector's own origin
  tag and the position that calibration computes from (0, 0). It is built by the same
  expression as the record for any other coordinates (second part), because both
  branches of \<open>if cx == 0\<close> are the same statement.
\<close>

theorem sentinel_forwarded:
  "(case run (only_enabled False False True False)
          [frame_tick (roi 0 0 100 100) (ext\<lparr>RANSAC3D_fn := \<lambda>g. (0, 0, thresh100)\<rparr>)]
          (init 0) of
     Pending s \<Rightarrow>
       map snd (image_queue_outgoing s) =
         [EyeInformation RANSAC (fst (cal_osc ext 0 0)) (snd (cal_osc ext 0 0)) 0
            (intense ext 0 0
               (Some (Image 100 100 1 (ToGray (Warp (Crop (Captured 0) 0 100 0 100) 0)))))]
   | Returned s \<Rightarrow> False
   | Died e \<Rightarrow> False)
   \<and> (case run (only_enabled False False True False)
          [frame_tick (roi 0 0 100 100) (ext\<lparr>RANSAC3D_fn := \<lambda>g. (cx, cy, thresh100)\<rparr>)]
          (init 0) of
     Pending s \<Rightarrow>
       map snd (image_queue_outgoing s) =
         [EyeInformation RANSAC (fst (cal_osc ext cx cy)) (snd (cal_osc ext cx cy)) 0
            (intense ext cx cy
               (Some (Image 100 100 1 (ToGray (Warp (Crop (Captured 0) 0 100 0 100) 0)))))]
   | Returned s \<Rightarrow> False
   | Died e \<Rightarrow> False)"
  unfolding run_def setup_only_ransac sum.case
  by (simp add: frame_tick_def roi_def frame100_def thresh100_def
      init_def tick_defs RANSAC3DM_def)

text \<open>
  Across two calls of \<open>run\<close>, the first with the edge-based algorithm disabled and the
  second with it enabled, setup discards the handle and then builds a new engine with no
  accumulated state.
\<close>

lemma reenabled_engine_is_fresh:
  "case run_setup (only_enabled False False False False) s of
     Inl e \<Rightarrow> False
   | Inr s1 \<Rightarrow>
       er_hsf s1 = None
       \<and> (case run_setup (only_enabled True False False False) s1 of
             Inl e \<Rightarrow> False
           | Inr s2 \<Rightarrow> er_hsf s2 = Some (Engine (engines_built s) False 10 []))"
  by (simp add: only_enabled_def run_setup_def setup_HSF_def setup_HSRAC_def new_engine_def
      list_setitem_def seq_def Let_def unpack_algolist_def place_method_def)

text \<open>
  C4. The edge-based algorithm alone at priority 1; the first tick runs with the region of
  interest (0, 0, 100, 100), the second with (0, 0, 50, 50). The 3D camera model is
  rebuilt for the new resolution, but the engine behind \<open>er_hsf\<close> is still the one built
  in setup (construction number 0, one engine built in all), and it has been run on a
  100 by 100 frame and then on a 50 by 50 frame.
\<close>

theorem engine_survives_resolution_change:
  "case run (only_enabled True False False False)
          [frame_tick (roi 0 0 100 100) ext, frame_tick (roi 0 0 50 50) ext] (init 0) of
     Pending s \<Rightarrow>
       er_hsf s = Some (Engine 0 False 10 [(100, 100), (50, 50)])
       \<and> engines_built s = 1
       \<and> camera_model s = Some (CameraModel 30 (50, 50))
       \<and> detector_calls s = [HSFM_ref, HSFM_ref]
   | Returned s \<Rightarrow> False
   | Died e \<Rightarrow> False"
  unfolding run_def setup_only_hsf sum.case
  by (simp add: frame_tick_def roi_def frame100_def
      init_def tick_defs HSFM_def split: prod.splits)


subsection \<open>The output sink\<close>

lemma stack_images_stackable:
  "stackable gray thr \<Longrightarrow> \<exists>stack. stack_images gray thr = Inr stack"
  by (auto simp: stackable_def stack_images_def cvtColor_GRAY2BGR_def concatenate_axis1_def
      split: option.splits)

lemma stack_images_not_stackable:
  "\<not> stackable gray thr \<Longrightarrow> \<exists>e. stack_images gray thr = Inl e"
  by (auto simp: stackable_def stack_images_def cvtColor_GRAY2BGR_def concatenate_axis1_def
      seq_def split: option.splits)

text \<open>
  C7, as stated, fails: a diagnostic frame 100 rows by 50 columns against a grayscale
  frame 100 by 100 has mismatched dimensions, yet the two are concatenated (side by side,
  150 columns) and the record is enqueued.
\<close>

theorem output_sink_mismatch_counterexample:
  "(img_rows thresh_narrow, img_cols thresh_narrow) \<noteq> (img_rows gray100, img_cols gray100)
   \<and> current_image_gray gray_state = Some gray100
   \<and> image_queue_outgoing gray_state = []
   \<and> image_queue_outgoing
        (output_images_and_update (roi 0 0 100 100) thresh_narrow sample_info gray_state)
      = [(Image 100 150 3 (HStack (ToBGR (ToGray (Captured 0))) (ToBGR (Captured 2))),
          sample_info)]"
  by (simp add: thresh_narrow_def gray100_def gray_state_def init_def roi_def
      output_images_and_update_def stack_images_def cvtColor_GRAY2BGR_def
      concatenate_axis1_def)

text \<open>
  C7, amended. If the two frames differ in their number of rows (more generally, whenever
  they are not stackable) the call changes nothing: nothing is enqueued, and
  \<open>previous_image\<close> and \<open>previous_rotation\<close> keep their values; the call always returns, so
  the worker goes on. If they are stackable, exactly one item, carrying the given record,
  is appended to the outgoing queue, and \<open>previous_image\<close> and \<open>previous_rotation\<close> become
  the current frame and the configured angle.
\<close>

theorem output_sink_drop_or_publish:
  "(current_image_gray s = Some g \<longrightarrow> img_rows g \<noteq> img_rows thr \<longrightarrow>
      output_images_and_update cfg thr info s = s)
   \<and> (\<not> stackable (current_image_gray s) thr \<longrightarrow>
      output_images_and_update cfg thr info s = s)
   \<and> (stackable (current_image_gray s) thr \<longrightarrow>
      (\<exists>stack. output_images_and_update cfg thr info s =
         s\<lparr>image_queue_outgoing := image_queue_outgoing s @ [(stack, info)],
           previous_image := current_image s,
           previous_rotation := rotation_angle cfg\<rparr>))"
proof (intro conjI impI)
  assume "current_image_gray s = Some g" and "img_rows g \<noteq> img_rows thr"
  then have "\<not> stackable (current_image_gray s) thr" by (simp add: stackable_def)
  then show "output_images_and_update cfg thr info s = s"
    using stack_images_not_stackable [of "current_image_gray s" thr]
    by (auto simp: output_images_and_update_def)
next
  assume "\<not> stackable (current_image_gray s) thr"
  then show "output_images_and_update cfg thr info s = s"
    using stack_images_not_stackable [of "current_image_gray s" thr]
    by (auto simp: output_images_and_update_def)
next
  assume "stackable (current_image_gray s) thr"
  then obtain stack where "stack_images (current_image_gray s) thr = Inr stack"
    using stack_images_stackable by blast
  then show "\<exists>stack. output_images_and_update cfg thr info s =
         s\<lparr>image_queue_outgoing := image_queue_outgoing s @ [(stack, info)],
           previous_image := current_image s,
           previous_rotation := rotation_angle cfg\<rparr>"
    by (auto simp: output_images_and_update_def)
qed

theorem output_sink_drop_or_publish_witness:
  "current_image_gray gray_state = Some gray100
   \<and> img_rows gray100 \<noteq> img_rows thresh_short
   \<and> \<not> stackable (current_image_gray gray_state) thresh_short
   \<and> output_images_and_update (roi 0 0 100 100) thresh_short sample_info gray_state
       = gray_state
   \<and> stackable (current_image_gray gray_state) thresh100
   \<and> output_images_and_update (roi 0 0 100 100) thresh100 sample_info gray_state
         = gray_state\<lparr>image_queue_outgoing :=
               [(Image 100 200 3 (HStack (ToBGR (ToGray (Captured 0))) (ToBGR (Captured 1))),
                 sample_info)],
             previous_image := Some frame100, previous_rotation := 0\<rparr>"
proof -
  have a: "current_image_gray gray_state = Some gray100"
    and b: "img_rows gray100 \<noteq> img_rows thresh_short"
    and c: "\<not> stackable (current_image_gray gray_state) thresh_short"
    and d: "stackable (current_image_gray gray_state) thresh100"
    by (simp_all add: gray_state_def gray100_def thresh_short_def thresh100_def
        stackable_def)
  have e: "output_images_and_update (roi 0 0 100 100) thresh100 sample_info gray_state
         = gray_state\<lparr>image_queue_outgoing :=
               [(Image 100 200 3 (HStack (ToBGR (ToGray (Captured 0))) (ToBGR (Captured 1))),
                 sample_info)],
             previous_image := Some frame100, previous_rotation := 0\<rparr>"
    by (simp add: output_images_and_update_def stack_images_def cvtColor_GRAY2BGR_def
        concatenate_axis1_def gray100_def thresh100_def gray_state_def init_def roi_def)
  have f: "output_images_and_update (roi 0 0 100 100) thresh_short sample_info gray_state
       = gray_state"
    using output_sink_drop_or_publish
      [of gray_state gray100 thresh_short "roi 0 0 100 100" sample_info] a b
    by blast
  show ?thesis
    using a b c d e f by blast
qed

subsection \<open>The preprocessor\<close>

lemma slice_len_in_bounds:
  "0 \<le> a \<Longrightarrow> 0 \<le> l \<Longrightarrow> a + l \<le> int n \<Longrightarrow> slice_len n a (a + l) = nat l"
  by (auto simp: slice_len_def slice_index_def)

lemma preprocess_in_bounds:
  assumes "current_image s = Some img" and "img_chans img \<noteq> 1"
    and "0 \<le> roi_window_x cfg" and "0 \<le> roi_window_y cfg"
    and "0 < roi_window_w cfg" and "0 < roi_window_h cfg"
    and "roi_window_x cfg + roi_window_w cfg \<le> int (img_cols img)"
    and "roi_window_y cfg + roi_window_h cfg \<le> int (img_rows img)"
    and "roi_window_w cfg < int SHRT_MAX" and "roi_window_h cfg < int SHRT_MAX"
    and "\<not> float_overflow (rotation_angle cfg)"
  shows "capture_crop_rotate_image cfg s =
           (True, s\<lparr>current_image :=
              Some (Image (nat (roi_window_h cfg)) (nat (roi_window_w cfg)) (img_chans img)
                (Warp (Crop (img_data img) (roi_window_y cfg)
                         (roi_window_y cfg + roi_window_h cfg) (roi_window_x cfg)
                         (roi_window_x cfg + roi_window_w cfg))
                   (rotation_angle cfg)))\<rparr>)"
  using assms
  by (simp add: capture_crop_rotate_image_def crop_step_def rotate_step_def crop_def
      shape3_def warpAffine_def getRotationMatrix2D_def seq_def Let_def slice_len_in_bounds)
    linarith

text \<open>
  C8, amended. For a colour (three-channel) frame, a region of interest with \<open>w > 0\<close> and
  \<open>h > 0\<close> that lies inside the frame and whose sides are below 32767, and every rotation
  angle that converts to a float, preprocessing succeeds and its output frame has exactly
  \<open>h\<close> rows and \<open>w\<close> columns.
\<close>

theorem preprocessor_output_size:
  assumes "current_image s = Some img" and "img_chans img = 3"
    and "0 \<le> roi_window_x cfg" and "0 \<le> roi_window_y cfg"
    and "0 < roi_window_w cfg" and "0 < roi_window_h cfg"
    and "roi_window_x cfg + roi_window_w cfg \<le> int (img_cols img)"
    and "roi_window_y cfg + roi_window_h cfg \<le> int (img_rows img)"
    and "roi_window_w cfg < int SHRT_MAX" and "roi_window_h cfg < int SHRT_MAX"
    and "\<not> float_overflow (rotation_angle cfg)"
  shows "case capture_crop_rotate_image cfg s of
           (ok, s') \<Rightarrow>
             ok \<and> (case current_image s' of
                     None \<Rightarrow> False
                   | Some out \<Rightarrow>
                       int (img_rows out) = roi_window_h cfg
                       \<and> int (img_cols out) = roi_window_w cfg)"
  using assms by (simp add: preprocess_in_bounds)

theorem preprocessor_output_size_witness:
  "current_image gray_state = Some frame100 \<and> img_chans frame100 = 3
   \<and> 0 \<le> roi_window_x (roi 10 20 60 70) \<and> 0 \<le> roi_window_y (roi 10 20 60 70)
   \<and> 0 < roi_window_w (roi 10 20 60 70) \<and> 0 < roi_window_h (roi 10 20 60 70)
   \<and> roi_window_x (roi 10 20 60 70) + roi_window_w (roi 10 20 60 70)
        \<le> int (img_cols frame100)
   \<and> roi_window_y (roi 10 20 60 70) + roi_window_h (roi 10 20 60 70)
        \<le> int (img_rows frame100)
   \<and> roi_window_w (roi 10 20 60 70) < int SHRT_MAX
   \<and> roi_window_h (roi 10 20 60 70) < int SHRT_MAX
   \<and> \<not> float_overflow (rotation_angle (roi 10 20 60 70))
   \<and> (case capture_crop_rotate_image (roi 10 20 60 70) gray_state of
         (ok, s') \<Rightarrow>
           ok \<and> (case current_image s' of
                   None \<Rightarrow> False
                 | Some out \<Rightarrow> int (img_rows out) = 70 \<and> int (img_cols out) = 60))"
proof -
  have h: "current_image gray_state = Some frame100" "img_chans frame100 = 3"
    "0 \<le> roi_window_x (roi 10 20 60 70)" "0 \<le> roi_window_y (roi 10 20 60 70)"
    "0 < roi_window_w (roi 10 20 60 70)" "0 < roi_window_h (roi 10 20 60 70)"
    "roi_window_x (roi 10 20 60 70) + roi_window_w (roi 10 20 60 70)
        \<le> int (img_cols frame100)"
    "roi_window_y (roi 10 20 60 70) + roi_window_h (roi 10 20 60 70)
        \<le> int (img_rows frame100)"
    "roi_window_w (roi 10 20 60 70) < int SHRT_MAX"
    "roi_window_h (roi 10 20 60 70) < int SHRT_MAX"
    "\<not> float_overflow (rotation_angle (roi 10 20 60 70))"
    by (simp_all add: gray_state_def frame100_def roi_def SHRT_MAX_def)
  have v: "roi_window_h (roi 10 20 60 70) = 70" "roi_window_w (roi 10 20 60 70) = 60"
    by (simp_all add: roi_def)
  show ?thesis
    using preprocessor_output_size [OF h] h unfolding v by simp
qed

text \<open>
  C8, as stated, fails: the region (50, 50, 100, 100) has positive width and height, but
  on a 100 by 100 frame the slice is clamped to the frame and the output is 50 by 50.
\<close>

theorem preprocessor_output_size_counterexample:
  "0 < roi_window_w (roi 50 50 100 100) \<and> 0 < roi_window_h (roi 50 50 100 100)
   \<and> capture_crop_rotate_image (roi 50 50 100 100) gray_state
       = (True, gray_state\<lparr>current_image :=
                  Some (Image 50 50 3 (Warp (Crop (Captured 0) 50 150 50 150) 0))\<rparr>)"
  by (simp add: roi_def gray_state_def init_def frame100_def capture_crop_rotate_image_def
      crop_step_def rotate_step_def crop_def shape3_def warpAffine_def
      getRotationMatrix2D_def SHRT_MAX_def seq_def Let_def slice_len_def slice_index_def)

text \<open>
  The two size and angle conditions are needed: preprocessing fails on a frame 32767
  columns wide taken whole, and on an angle of \<open>10^400\<close>.
\<close>

lemma preprocess_fails_at_SHRT_MAX:
  "fst (capture_crop_rotate_image (roi 0 0 32767 1)
          ((init 0)\<lparr>current_image := Some (Image 1 32767 3 (Captured 0))\<rparr>)) = False"
  by (simp add: roi_def init_def capture_crop_rotate_image_def
      crop_step_def rotate_step_def crop_def shape3_def warpAffine_def
      getRotationMatrix2D_def SHRT_MAX_def seq_def Let_def slice_len_def slice_index_def)

lemma float_overflow_huge: "float_overflow (10 ^ 400)"
  by (simp add: float_overflow_def)

lemma preprocess_fails_on_huge_angle:
  "fst (capture_crop_rotate_image ((roi 0 0 100 100)\<lparr>rotation_angle := 10 ^ 400\<rparr>)
          gray_state) = False"
  by (simp add: float_overflow_huge roi_def gray_state_def init_def frame100_def
      capture_crop_rotate_image_def crop_step_def rotate_step_def crop_def shape3_def
      getRotationMatrix2D_def seq_def Let_def slice_len_def slice_index_def
      del: power_numeral)

subsection \<open>The loop leaves the slot table and the engine handles alone\<close>

lemma same_refl [simp]: "same_table_and_handles s s"
  by (simp add: same_table_and_handles_def)

lemma same_trans:
  "same_table_and_handles a b \<Longrightarrow> same_table_and_handles b c \<Longrightarrow> same_table_and_handles a c"
  by (simp add: same_table_and_handles_def)

lemma same_simps [simp]:
  "same_table_and_handles s (s1\<lparr>failed := f\<rparr>) = same_table_and_handles s s1"
  "same_table_and_handles s (s1\<lparr>current_image := c\<rparr>) = same_table_and_handles s s1"
  "same_table_and_handles s (s1\<lparr>current_image_gray := g\<rparr>) = same_table_and_handles s s1"
  "same_table_and_handles s (s1\<lparr>current_image_gray_clean := g\<rparr>)
     = same_table_and_handles s s1"
  "same_table_and_handles s (s1\<lparr>current_frame_number := n\<rparr>) = same_table_and_handles s s1"
  "same_table_and_handles s (s1\<lparr>current_fps := r\<rparr>) = same_table_and_handles s s1"
  "same_table_and_handles s (s1\<lparr>capture_event := b\<rparr>) = same_table_and_handles s s1"
  "same_table_and_handles s (s1\<lparr>camera_model := cm\<rparr>) = same_table_and_handles s s1"
  "same_table_and_handles s (s1\<lparr>detector_3d := cm\<rparr>) = same_table_and_handles s s1"
  "same_table_and_handles s (s1\<lparr>eyeoffx := v\<rparr>) = same_table_and_handles s s1"
  by (simp_all add: same_table_and_handles_def slot_table_def)

lemma same_simps_left [simp]:
  "same_table_and_handles (s1\<lparr>current_image := c\<rparr>) s' = same_table_and_handles s1 s'"
  "same_table_and_handles (s1\<lparr>current_image_gray := g\<rparr>) s' = same_table_and_handles s1 s'"
  "same_table_and_handles (s1\<lparr>current_image_gray_clean := g\<rparr>) s'
     = same_table_and_handles s1 s'"
  "same_table_and_handles (s1\<lparr>current_frame_number := n\<rparr>) s' = same_table_and_handles s1 s'"
  "same_table_and_handles (s1\<lparr>current_fps := r\<rparr>) s' = same_table_and_handles s1 s'"
  "same_table_and_handles (s1\<lparr>capture_event := b\<rparr>) s' = same_table_and_handles s1 s'"
  "same_table_and_handles (s1\<lparr>camera_model := cm\<rparr>) s' = same_table_and_handles s1 s'"
  "same_table_and_handles (s1\<lparr>detector_3d := cm\<rparr>) s' = same_table_and_handles s1 s'"
  by (simp_all add: same_table_and_handles_def slot_table_def)

lemma invoke_same:
  assumes "invoke ext cfg m s = Inr s'"
  shows "same_table_and_handles s s'"
  using invoke_frame [OF assms]
  by (simp add: same_table_and_handles_def slot_table_def untouched_def)

lemma algo_check_same:
  "algo_check ext cfg k slot s = Inr s' \<Longrightarrow> same_table_and_handles s s'"
  by (auto simp: algo_check_def invoke_same split: option.splits if_splits)

lemma algo_check_last_same:
  "algo_check_last ext cfg slot s = Inr s' \<Longrightarrow> same_table_and_handles s s'"
  by (auto simp: algo_check_last_def invoke_same split: option.splits if_splits)

lemma seq_Inr_iff: "seq r k = Inr v \<longleftrightarrow> (\<exists>u. r = Inr u \<and> k u = Inr v)"
  by (cases r) simp_all

lemma ALGOSELECT_same:
  assumes "ALGOSELECT ext cfg s = Inr s'"
  shows "same_table_and_handles s s'"
proof -
  from assms obtain s1 s2 s3 where
    1: "algo_check ext cfg 0 (firstalgo s) s = Inr s1" and
    2: "algo_check ext cfg 1 (secondalgo s1) s1 = Inr s2" and
    3: "algo_check ext cfg 2 (thirdalgo s2) s2 = Inr s3" and
    4: "algo_check_last ext cfg (fourthalgo s3) s3 = Inr s'"
    unfolding ALGOSELECT_def seq_Inr_iff by blast
  show ?thesis
    using algo_check_same [OF 1] algo_check_same [OF 2] algo_check_same [OF 3]
      algo_check_last_same [OF 4] same_trans by blast
qed

lemma capture_same:
  "capture_crop_rotate_image cfg s = (ok, s') \<Longrightarrow> same_table_and_handles s s'"
  by (auto simp: capture_crop_rotate_image_def crop_step_def Let_def
      split: option.splits sum.splits)

lemma after_preprocess_same:
  "after_preprocess ext cfg s = Next s' \<Longrightarrow> same_table_and_handles s s'"
  by (auto simp: after_preprocess_def BLINKM_def split: sum.splits dest!: ALGOSELECT_same)

lemma process_frame_same:
  assumes "process_frame ext cfg s = Next s'"
  shows "same_table_and_handles s s'"
proof -
  obtain ok s1 where c: "capture_crop_rotate_image cfg s = (ok, s1)"
    by (cases "capture_crop_rotate_image cfg s")
  show ?thesis
  proof (cases ok)
    case True
    then have "after_preprocess ext cfg s1 = Next s'"
      using assms c by (simp add: process_frame_def)
    then show ?thesis
      using capture_same [OF c] after_preprocess_same same_trans by blast
  next
    case False
    then have "s' = s1" using assms c by (simp add: process_frame_def)
    then show ?thesis using capture_same [OF c] by simp
  qed
qed

lemma process_frame_not_Return: "process_frame ext cfg s \<noteq> Return s'"
  by (simp add: process_frame_def after_preprocess_def split: prod.splits sum.splits)

lemma reset_model_same [simp]:
  "same_table_and_handles s (reset_model cfg s1) = same_table_and_handles s s1"
  by (simp add: reset_model_def Let_def)

lemma reset_model_same_left [simp]:
  "same_table_and_handles (reset_model cfg s1) s' = same_table_and_handles s1 s'"
  by (simp add: reset_model_def Let_def)

lemma tick_same:
  assumes "tick i s = Next s' \<or> tick i s = Return s'"
  shows "same_table_and_handles s s'"
  using assms
  by (auto simp: tick_def await_frame_def store_frame_def Let_def process_frame_not_Return
      split: if_splits option.splits prod.splits dest!: process_frame_same)

text \<open>
  C10. Whatever the loop observes in any number of iterations (cancellation, camera
  configuration, frames, collaborators' results; the settings are not read at all), in
  the state at the head of every later iteration and in the state on return the four
  slots hold what they held when the loop started, both engine handles refer to the same
  engine objects (or are both still empty), and no engine has been constructed.
\<close>

theorem loop_keeps_table_and_handles:
  assumes "run_loop inputs s = Pending s' \<or> run_loop inputs s = Returned s'"
  shows "same_table_and_handles s s'"
  using assms
proof (induction inputs arbitrary: s)
  case Nil
  then show ?case by simp
next
  case (Cons i rest)
  show ?case
  proof (cases "tick i s")
    case (Return s1)
    then show ?thesis using Cons.prems tick_same [of i s s1] by simp
  next
    case (Next s1)
    then have "same_table_and_handles s s1" using tick_same [of i s s1] by simp
    moreover have "same_table_and_handles s1 s'"
      using Cons.IH [of s1] Cons.prems Next by simp
    ultimately show ?thesis using same_trans by blast
  next
    case (Uncaught e)
    then show ?thesis using Cons.prems by simp
  qed
qed


lemma hsf_tick_pending:
  "\<exists>s'. run_loop [frame_tick (roi 0 0 100 100) sample_ext] hsf_ready = Pending s'
        \<and> detector_calls s' = [HSFM_ref] \<and> length (image_queue_outgoing s') = 1"
  by (simp add: frame_tick_def roi_def frame100_def thresh100_def sample_ext_def
      hsf_ready_def init_def tick_defs HSFM_def)

theorem loop_keeps_table_and_handles_witness:
  "case run_loop [frame_tick (roi 0 0 100 100) sample_ext] hsf_ready of
     Pending s' \<Rightarrow>
       slot_table s' = [Some HSFM_ref, None, None, None]
       \<and> engine_id (er_hsf s') = Some (0, False, 10)
       \<and> engine_id (er_hsrac s') = None
       \<and> engines_built s' = 1
       \<and> detector_calls s' = [HSFM_ref]
   | Returned s' \<Rightarrow> False
   | Died e \<Rightarrow> False"
proof -
  obtain s' where p: "run_loop [frame_tick (roi 0 0 100 100) sample_ext] hsf_ready = Pending s'"
    and c: "detector_calls s' = [HSFM_ref]"
    using hsf_tick_pending by blast
  have "same_table_and_handles hsf_ready s'"
    using loop_keeps_table_and_handles [of _ hsf_ready s'] p by blast
  then have "slot_table s' = [Some HSFM_ref, None, None, None]
      \<and> engine_id (er_hsf s') = Some (0, False, 10)
      \<and> engine_id (er_hsrac s') = None \<and> engines_built s' = 1"
    by (simp add: same_table_and_handles_def slot_table_def engine_id_def hsf_ready_def
        init_def)
  then show ?thesis
    unfolding p using c by simp
qed


subsection \<open>Waiting for the region of interest\<close>

lemma tick_roi_unset:
  "roi_unset i \<Longrightarrow> tick i s = (if cancelled i then Return s else Next s)"
  by (simp add: tick_def roi_unset_def cancelled_def Let_def)

lemma loop_roi_unset:
  assumes "list_all roi_unset pre" and "list_all (\<lambda>i. \<not> cancelled i) pre"
    and "roi_unset i" and "cancelled i"
  shows "run_loop pre s = Pending s \<and> run_loop (pre @ i # post) s = Returned s"
  using assms(1,2)
proof (induction pre)
  case Nil
  then show ?case using assms(3,4) by (simp add: tick_roi_unset)
next
  case (Cons j pre)
  then show ?case by (simp add: tick_roi_unset)
qed

lemma setup_HSF_engines:
  assumes "setup_HSF st (al, s) = Inr (al', s')"
  shows "er_hsf s' = handle_after_setup (gui_HSF st) (er_hsf s) (new_engine st s)"
    and "er_hsrac s' = er_hsrac s"
    and "engines_built s' =
           engines_built s + (if gui_HSF st \<and> er_hsf s = None then 1 else 0)"
  using assms
  by (auto simp: setup_HSF_def Let_def seq_Inr_iff handle_after_setup_def
      split: if_splits option.splits)

lemma setup_HSRAC_engines:
  assumes "setup_HSRAC st (al, s) = Inr (al', s')"
  shows "er_hsrac s' = handle_after_setup (gui_HSRAC st) (er_hsrac s) (new_engine st s)"
    and "er_hsf s' = er_hsf s"
  using assms
  by (auto simp: setup_HSRAC_def Let_def seq_Inr_iff handle_after_setup_def
      split: if_splits option.splits)

lemma unpack_engines:
  "unpack_algolist (al, s) = Inr s' \<Longrightarrow> er_hsf s' = er_hsf s \<and> er_hsrac s' = er_hsrac s"
  by (auto simp: unpack_algolist_def split: list.splits)

lemma place_method_engines [simp]:
  "er_hsf (place_method en p m s) = er_hsf s"
  "er_hsrac (place_method en p m s) = er_hsrac s"
  by (simp_all add: place_method_def)

lemma run_setup_engines:
  assumes "run_setup st s0 = Inr s"
  shows "er_hsf s =
           handle_after_setup (gui_HSF st) (er_hsf s0)
             (Engine (engines_built s0) (gui_skip_autoradius st) (gui_HSF_radius st) [])"
    and "er_hsrac s =
           handle_after_setup (gui_HSRAC st) (er_hsrac s0)
             (Engine (engines_built s0 + (if gui_HSF st \<and> er_hsf s0 = None then 1 else 0))
                (gui_skip_autoradius st) (gui_HSF_radius st) [])"
proof -
  let ?s = "s0\<lparr>firstalgo := None, secondalgo := None, thirdalgo := None, fourthalgo := None\<rparr>"
  from assms obtain al1 s1 al2 s2 s3 where
    1: "setup_HSF st ([None, None, None, None, None], ?s) = Inr (al1, s1)" and
    2: "setup_HSRAC st (al1, s1) = Inr (al2, s2)" and
    3: "unpack_algolist (al2, s2) = Inr s3" and
    4: "s = place_method (gui_BLOB st) (gui_BLOBP st) BLOBM_ref
                (place_method (gui_RANSAC3D st) (gui_RANSAC3DP st) RANSAC3DM_ref s3)"
    unfolding run_setup_def Let_def seq_Inr_iff by auto
  show "er_hsf s =
           handle_after_setup (gui_HSF st) (er_hsf s0)
             (Engine (engines_built s0) (gui_skip_autoradius st) (gui_HSF_radius st) [])"
    using setup_HSF_engines(1) [OF 1] setup_HSRAC_engines(2) [OF 2] unpack_engines [OF 3] 4
    by (simp add: new_engine_def)
  show "er_hsrac s =
           handle_after_setup (gui_HSRAC st) (er_hsrac s0)
             (Engine (engines_built s0 + (if gui_HSF st \<and> er_hsf s0 = None then 1 else 0))
                (gui_skip_autoradius st) (gui_HSF_radius st) [])"
    using setup_HSF_engines(2,3) [OF 1] setup_HSRAC_engines(1) [OF 2] unpack_engines [OF 3] 4
    by (simp add: new_engine_def)
qed

text \<open>
  C9, amended. Let setup complete. It leaves behind \<open>er_hsf\<close> and \<open>er_hsrac\<close> an engine
  for each of the edge-based and hybrid algorithms that is enabled (the engine already
  there, or else a newly constructed one) and nothing for one that is disabled; the
  region of interest plays no part in this. Then, while the configured width or height
  is not positive, every iteration polls cancellation directly and, if it is not set,
  sleeps by one wait on the cancellation event with a timeout of 0.1 seconds; as long as
  neither poll observes cancellation the loop keeps running and the processor is exactly
  as setup left it, so the loop has built no engine, no camera model and no 3D detector,
  invoked no detector and emitted nothing; in the first iteration that observes
  cancellation, \<open>run\<close> returns, with the processor still as setup left it, whatever would
  have followed.
\<close>

theorem roi_unset_idles_until_cancelled:
  assumes "run_setup st s0 = Inr s"
    and "list_all roi_unset pre" and "list_all (\<lambda>i. \<not> cancelled i) pre"
    and "roi_unset i" and "cancelled i"
  shows "run st pre s0 = Pending s \<and> run st (pre @ i # post) s0 = Returned s
         \<and> er_hsf s =
             handle_after_setup (gui_HSF st) (er_hsf s0)
               (Engine (engines_built s0) (gui_skip_autoradius st) (gui_HSF_radius st) [])
         \<and> er_hsrac s =
             handle_after_setup (gui_HSRAC st) (er_hsrac s0)
               (Engine (engines_built s0 + (if gui_HSF st \<and> er_hsf s0 = None then 1 else 0))
                  (gui_skip_autoradius st) (gui_HSF_radius st) [])"
  using loop_roi_unset [OF assms(2-5), of s post] run_setup_engines [OF assms(1)] assms(1)
  by (simp add: run_def)

lemma setup_both:
  "run_setup (only_enabled True True False False) (init 0) = Inr both_ready"
  by (simp add: only_enabled_def run_setup_def setup_HSF_def setup_HSRAC_def new_engine_def
      list_setitem_def seq_def Let_def unpack_algolist_def place_method_def init_def
      both_ready_def)

theorem roi_unset_idles_until_cancelled_witness:
  "run_setup (only_enabled True True False False) (init 0) = Inr both_ready
   \<and> list_all roi_unset [idle_tick False, idle_tick False]
   \<and> list_all (\<lambda>i. \<not> cancelled i) [idle_tick False, idle_tick False]
   \<and> roi_unset (idle_tick True) \<and> cancelled (idle_tick True)
   \<and> run (only_enabled True True False False) [idle_tick False, idle_tick False] (init 0)
       = Pending both_ready
   \<and> run (only_enabled True True False False)
        ([idle_tick False, idle_tick False] @ idle_tick True
           # [frame_tick (roi 0 0 100 100) sample_ext]) (init 0)
       = Returned both_ready
   \<and> er_hsf both_ready = Some (Engine 0 False 10 [])
   \<and> er_hsrac both_ready = Some (Engine 1 False 10 [])"
proof -
  have h: "list_all roi_unset [idle_tick False, idle_tick False]"
    "list_all (\<lambda>i. \<not> cancelled i) [idle_tick False, idle_tick False]"
    "roi_unset (idle_tick True)" "cancelled (idle_tick True)"
    by (simp_all add: roi_unset_def cancelled_def idle_tick_def roi_def)
  have e: "er_hsf both_ready = Some (Engine 0 False 10 [])"
    "er_hsrac both_ready = Some (Engine 1 False 10 [])"
    by (simp_all add: both_ready_def)
  show ?thesis
    using roi_unset_idles_until_cancelled
      [OF setup_both h, of "[frame_tick (roi 0 0 100 100) sample_ext]"] h setup_both e
    by blast
qed

lemma setup_only_hsf_ready:
  "run_setup (only_enabled True False False False) (init 0) = Inr hsf_ready"
  by (simp add: setup_only_hsf hsf_ready_def)

text \<open>
  C9, as stated, fails: with the edge-based algorithm enabled, \<open>run\<close> on a fresh processor
  whose region of interest is never valid, cancelled during the first sleep, returns with
  an engine constructed behind \<open>er_hsf\<close>.
\<close>

theorem engine_built_before_roi_counterexample:
  "roi_unset (idle_tick True)
   \<and> run (only_enabled True False False False) [idle_tick True] (init 0) = Returned hsf_ready
   \<and> er_hsf (init 0) = None
   \<and> er_hsf hsf_ready = Some (Engine 0 False 10 [])
   \<and> engines_built (init 0) = 0
   \<and> engines_built hsf_ready = 1"
  unfolding run_def setup_only_hsf_ready sum.case
  by (simp add: tick_roi_unset roi_unset_def cancelled_def idle_tick_def roi_def
      hsf_ready_def init_def)

subsection \<open>Failure of the crop\<close>

lemma first_tick:
  "tick (frame_tick (roi 0 0 100 100) sample_ext) hsf_ready = Next after_first_tick"
  by (simp add: frame_tick_def roi_def frame100_def thresh100_def sample_ext_def
      hsf_ready_def init_def tick_defs HSFM_def accepted100_def after_first_tick_def)

text \<open>
  C6, as stated, fails when the crop fails because the region of interest is out of
  bounds: with an accepted frame present and the region (200, 200, 50, 50) on a 100 by
  100 frame, the crop is empty, the accepted frame is not used, and the iteration is
  abandoned with no detector invoked and nothing emitted.
\<close>

theorem crop_out_of_bounds_counterexample:
  "previous_image after_first_tick = Some accepted100
   \<and> crop frame100 200 200 50 50 = Image 0 0 3 (Crop (Captured 0) 200 250 200 250)
   \<and> tick (frame_tick (roi 200 200 50 50) sample_ext) after_first_tick
       = Next (after_first_tick
                \<lparr>camera_model := Some (CameraModel 30 (50, 50)),
                 detector_3d := Some (CameraModel 30 (50, 50)),
                 current_image := Some (Image 0 0 3 (Crop (Captured 0) 200 250 200 250))\<rparr>)"
  by (simp add: frame_tick_def roi_def frame100_def thresh100_def sample_ext_def
      hsf_ready_def init_def tick_defs HSFM_def accepted100_def after_first_tick_def)

lemma accepts_refl [simp]: "accepts s s"
  by (simp add: accepts_def)

lemma accepts_trans: "accepts a b \<Longrightarrow> accepts b c \<Longrightarrow> accepts a c"
  by (auto simp: accepts_def)

lemma output_accepts:
  "accepts s0 s \<Longrightarrow> accepts s0 (output_images_and_update cfg thr info s)"
  by (auto simp: accepts_def output_images_and_update_def split: sum.splits)

lemma accepts_simps [simp]:
  "accepts s (s1\<lparr>eyeopen := v\<rparr>) = accepts s s1"
  "accepts s (s1\<lparr>er_hsf := h\<rparr>) = accepts s s1"
  "accepts s (s1\<lparr>er_hsrac := h\<rparr>) = accepts s s1"
  "accepts s (s1\<lparr>current_image_gray := g\<rparr>) = accepts s s1"
  "accepts s (s1\<lparr>prev_x := px\<rparr>) = accepts s s1"
  "accepts s (s1\<lparr>prev_y := py\<rparr>) = accepts s s1"
  "accepts s (s1\<lparr>detector_calls := c\<rparr>) = accepts s s1"
  "accepts s (s1\<lparr>failed := f\<rparr>) = accepts s s1"
  "accepts s (s1\<lparr>eyeoffx := v\<rparr>) = accepts s s1"
  by (simp_all add: accepts_def)

lemma invoke_accepts:
  assumes "invoke ext cfg m s = Inr s'"
  shows "accepts s s'"
  using assms
  by (cases m)
    (auto simp: invoke_def HSFM_def HSRACM_def RANSAC3DM_def BLOBM_def Let_def
      output_accepts split: option.splits prod.splits if_splits)

lemma algo_check_accepts:
  "algo_check ext cfg k slot s = Inr s' \<Longrightarrow> accepts s s'"
  by (auto simp: algo_check_def invoke_accepts split: option.splits if_splits)

lemma algo_check_last_accepts:
  "algo_check_last ext cfg slot s = Inr s' \<Longrightarrow> accepts s s'"
  by (auto simp: algo_check_last_def invoke_accepts split: option.splits if_splits)

lemma ALGOSELECT_accepts:
  assumes "ALGOSELECT ext cfg s = Inr s'"
  shows "accepts s s'"
proof -
  from assms obtain s1 s2 s3 where
    1: "algo_check ext cfg 0 (firstalgo s) s = Inr s1" and
    2: "algo_check ext cfg 1 (secondalgo s1) s1 = Inr s2" and
    3: "algo_check ext cfg 2 (thirdalgo s2) s2 = Inr s3" and
    4: "algo_check_last ext cfg (fourthalgo s3) s3 = Inr s'"
    unfolding ALGOSELECT_def seq_Inr_iff by blast
  show ?thesis
    using algo_check_accepts [OF 1] algo_check_accepts [OF 2] algo_check_accepts [OF 3]
      algo_check_last_accepts [OF 4] accepts_trans by blast
qed

lemma gray_usable: "cvtColor_BGR2GRAY a = Inr g \<Longrightarrow> fits a \<Longrightarrow> usable a"
  by (auto simp: cvtColor_BGR2GRAY_def usable_def fits_def split: option.splits if_splits)

lemma after_preprocess_usable:
  assumes "after_preprocess ext cfg s = Next s'" and "usable (previous_image s)"
    and "fits (current_image s)"
  shows "usable (previous_image s')"
proof -
  from assms(1) obtain g s2 where
    g: "cvtColor_BGR2GRAY (current_image s) = Inr g" and
    a: "ALGOSELECT ext cfg (s\<lparr>current_image_gray := Some g,
          current_image_gray_clean := Some g\<rparr>) = Inr s2" and
    e: "s' = BLINKM ext s2"
    by (auto simp: after_preprocess_def split: sum.splits)
  have "previous_image s2 = previous_image s \<or> previous_image s2 = current_image s"
    using ALGOSELECT_accepts [OF a] by (simp add: accepts_def)
  then show ?thesis
    using gray_usable [OF g assms(3)] assms(2) e by (auto simp: BLINKM_def)
qed

lemma warpAffine_fits: "warpAffine src angle dsize = Inr img \<Longrightarrow> fits (Some img)"
  by (auto simp: warpAffine_def fits_def Let_def split: option.splits if_splits)

lemma capture_previous:
  "capture_crop_rotate_image cfg s = (ok, s') \<Longrightarrow> previous_image s' = previous_image s"
  by (auto simp: capture_crop_rotate_image_def crop_step_def Let_def
      split: option.splits sum.splits)

lemma capture_fits:
  assumes "capture_crop_rotate_image cfg s = (True, s')"
  shows "fits (current_image s')"
proof -
  from assms obtain img where
    r: "rotate_step cfg (crop_step cfg s) = Inr img" and c: "current_image s' = Some img"
    by (auto simp: capture_crop_rotate_image_def Let_def split: sum.splits)
  from r obtain rc m where
    "warpAffine (current_image (crop_step cfg s)) m (snd rc, fst rc) = Inr img"
    unfolding rotate_step_def seq_Inr_iff by blast
  then show ?thesis using warpAffine_fits c by simp
qed

lemma process_frame_usable:
  assumes "process_frame ext cfg s = Next s'" and "usable (previous_image s)"
  shows "usable (previous_image s')"
proof -
  obtain ok s1 where c: "capture_crop_rotate_image cfg s = (ok, s1)"
    by (cases "capture_crop_rotate_image cfg s")
  have p: "usable (previous_image s1)" using capture_previous [OF c] assms(2) by simp
  show ?thesis
  proof (cases ok)
    case True
    then have "after_preprocess ext cfg s1 = Next s'"
      using assms(1) c by (simp add: process_frame_def)
    moreover have "fits (current_image s1)" using capture_fits c True by simp
    ultimately show ?thesis using after_preprocess_usable p by blast
  next
    case False
    then have "s' = s1" using assms(1) c by (simp add: process_frame_def)
    then show ?thesis using p by simp
  qed
qed

lemma reset_model_previous [simp]: "previous_image (reset_model cfg s) = previous_image s"
  by (simp add: reset_model_def Let_def)

lemma tick_usable:
  assumes "tick i s = Next s'" and "usable (previous_image s)"
  shows "usable (previous_image s')"
  using assms
  by (auto simp: tick_def await_frame_def store_frame_def Let_def
      split: if_splits option.splits prod.splits dest!: process_frame_usable)

lemma setup_HSF_previous:
  "setup_HSF st (al, s) = Inr (al', s') \<Longrightarrow> previous_image s' = previous_image s"
  by (auto simp: setup_HSF_def Let_def seq_Inr_iff split: if_splits)

lemma setup_HSRAC_previous:
  "setup_HSRAC st (al, s) = Inr (al', s') \<Longrightarrow> previous_image s' = previous_image s"
  by (auto simp: setup_HSRAC_def Let_def seq_Inr_iff split: if_splits)

lemma unpack_previous:
  "unpack_algolist (al, s) = Inr s' \<Longrightarrow> previous_image s' = previous_image s"
  by (auto simp: unpack_algolist_def split: list.splits)

lemma place_method_previous [simp]:
  "previous_image (place_method en p m s) = previous_image s"
  by (simp add: place_method_def)

lemma run_setup_previous:
  assumes "run_setup st s = Inr s'"
  shows "previous_image s' = previous_image s"
proof -
  from assms obtain al1 s1 al2 s2 s3 where
    1: "setup_HSF st ([None, None, None, None, None],
          s\<lparr>firstalgo := None, secondalgo := None, thirdalgo := None, fourthalgo := None\<rparr>)
        = Inr (al1, s1)" and
    2: "setup_HSRAC st (al1, s1) = Inr (al2, s2)" and
    3: "unpack_algolist (al2, s2) = Inr s3" and
    4: "s' = place_method (gui_BLOB st) (gui_BLOBP st) BLOBM_ref
                (place_method (gui_RANSAC3D st) (gui_RANSAC3DP st) RANSAC3DM_ref s3)"
    unfolding run_setup_def Let_def seq_Inr_iff by auto
  show ?thesis
    using setup_HSF_previous [OF 1] setup_HSRAC_previous [OF 2] unpack_previous [OF 3] 4
    by simp
qed

lemma reachable_usable: "reachable s \<Longrightarrow> usable (previous_image s)"
proof (induction rule: reachable.induct)
  case (at_init angle)
  then show ?case by (simp add: init_def usable_def)
next
  case (after_setup s st s')
  then show ?case using run_setup_previous by simp
next
  case (after_tick s i s')
  then show ?case using tick_usable by blast
qed

lemma fallback_preprocess:
  assumes "current_image s = None" and "previous_image s = Some p" and "usable (Some p)"
    and "\<not> float_overflow (rotation_angle cfg)"
  shows "capture_crop_rotate_image cfg s
           = (True, s\<lparr>current_image := Some (rotated (rotation_angle cfg) p)\<rparr>)"
  using assms
  by (auto simp: capture_crop_rotate_image_def crop_step_def rotate_step_def shape3_def
      warpAffine_def getRotationMatrix2D_def usable_def rotated_def Let_def)

lemma no_fallback_preprocess:
  assumes "current_image s = None" and "previous_image s = None"
  shows "capture_crop_rotate_image cfg s = (False, s)"
  using assms
  by (simp add: capture_crop_rotate_image_def crop_step_def rotate_step_def shape3_def
      Let_def)

lemma warpAffine_empty:
  "img_rows img = 0 \<or> img_cols img = 0 \<Longrightarrow> warpAffine (Some img) angle dsize = Inl cv2_error"
  by (auto simp: warpAffine_def)

lemma rotate_step_empty:
  assumes "current_image s = Some img" and "img_rows img = 0 \<or> img_cols img = 0"
  shows "\<exists>e. rotate_step cfg s = Inl e"
proof (cases "rotate_step cfg s")
  case (Inl e)
  then show ?thesis by blast
next
  case (Inr out)
  then obtain rc m where "warpAffine (current_image s) m (snd rc, fst rc) = Inr out"
    unfolding rotate_step_def seq_Inr_iff by blast
  then show ?thesis using warpAffine_empty [OF assms(2)] assms(1) by simp
qed

lemma empty_crop_preprocess:
  assumes "current_image s = Some img"
    and "img_rows (crop img (roi_window_x cfg) (roi_window_y cfg) (roi_window_w cfg)
                     (roi_window_h cfg)) = 0
         \<or> img_cols (crop img (roi_window_x cfg) (roi_window_y cfg) (roi_window_w cfg)
                       (roi_window_h cfg)) = 0"
  shows "capture_crop_rotate_image cfg s
           = (False, s\<lparr>current_image :=
                Some (crop img (roi_window_x cfg) (roi_window_y cfg) (roi_window_w cfg)
                        (roi_window_h cfg))\<rparr>)"
proof -
  let ?c = "crop img (roi_window_x cfg) (roi_window_y cfg) (roi_window_w cfg)
              (roi_window_h cfg)"
  have cs: "crop_step cfg s = s\<lparr>current_image := Some ?c\<rparr>"
    using assms(1) by (simp add: crop_step_def)
  obtain e where "rotate_step cfg (s\<lparr>current_image := Some ?c\<rparr>) = Inl e"
    using rotate_step_empty [of "s\<lparr>current_image := Some ?c\<rparr>" ?c cfg] assms(2) by auto
  then show ?thesis by (simp add: capture_crop_rotate_image_def cs)
qed

lemma await_frame_fields [simp]:
  "previous_image (await_frame i s) = previous_image s"
  "detector_calls (await_frame i s) = detector_calls s"
  "image_queue_outgoing (await_frame i s) = image_queue_outgoing s"
  by (simp_all add: await_frame_def reset_model_def Let_def)

text \<open>
  C6, amended. In an iteration that is not cancelled and has a region of interest of
  positive width and height:
  if the dequeued frame cannot be subscripted, so that the crop raises, and an accepted
  frame exists (and the rotation angle converts to a float), preprocessing succeeds with
  the accepted frame, rotated by the configured angle, as the current frame, that frame
  is fit for the grayscale conversion, and the iteration carries on with it exactly as
  with any preprocessed frame;
  if the crop raises and no accepted frame exists, preprocessing signals failure and the
  loop goes on to its next iteration with no detector invoked and nothing put on the
  outgoing queue;
  if the dequeued frame is an array and the region of interest lies outside it, so that
  the crop is empty, preprocessing signals failure in the same way, whether or not an
  accepted frame exists.
\<close>

theorem crop_failure_fallback:
  assumes "reachable s" and "\<not> cancel_is_set i"
    and "0 < roi_window_w (config i)" and "0 < roi_window_h (config i)"
  shows "(queue_get i (2 / 10) = Some (None, n, fps) \<and> previous_image s = Some p
          \<and> \<not> float_overflow (rotation_angle (config i)) \<longrightarrow>
            usable (Some (rotated (rotation_angle (config i)) p))
            \<and> tick i s =
                after_preprocess (collaborators i) (config i)
                  ((store_frame (None, n, fps) (await_frame i s))
                     \<lparr>current_image := Some (rotated (rotation_angle (config i)) p)\<rparr>))
       \<and> (queue_get i (2 / 10) = Some (None, n, fps) \<and> previous_image s = None \<longrightarrow>
            tick i s = Next (store_frame (None, n, fps) (await_frame i s))
            \<and> detector_calls (store_frame (None, n, fps) (await_frame i s))
                 = detector_calls s
            \<and> image_queue_outgoing (store_frame (None, n, fps) (await_frame i s))
                 = image_queue_outgoing s)
       \<and> (queue_get i (2 / 10) = Some (Some img, n, fps)
          \<and> (img_rows (crop img (roi_window_x (config i)) (roi_window_y (config i))
                          (roi_window_w (config i)) (roi_window_h (config i))) = 0
              \<or> img_cols (crop img (roi_window_x (config i)) (roi_window_y (config i))
                            (roi_window_w (config i)) (roi_window_h (config i))) = 0) \<longrightarrow>
            tick i s =
              Next ((store_frame (Some img, n, fps) (await_frame i s))
                      \<lparr>current_image :=
                         Some (crop img (roi_window_x (config i)) (roi_window_y (config i))
                                 (roi_window_w (config i)) (roi_window_h (config i)))\<rparr>)
            \<and> detector_calls (store_frame (Some img, n, fps) (await_frame i s))
                 = detector_calls s
            \<and> image_queue_outgoing (store_frame (Some img, n, fps) (await_frame i s))
                 = image_queue_outgoing s)"
proof (intro conjI impI)
  let ?s = "store_frame (None, n, fps) (await_frame i s)"
  let ?t = "store_frame (Some img, n, fps) (await_frame i s)"
  have c: "current_image ?s = None" and pr: "previous_image ?s = previous_image s"
    by (simp_all add: store_frame_def)
  {
    assume a: "queue_get i (2 / 10) = Some (None, n, fps) \<and> previous_image s = Some p
      \<and> \<not> float_overflow (rotation_angle (config i))"
    then have t: "tick i s = process_frame (collaborators i) (config i) ?s"
      using assms(2-4) by (simp add: tick_def Let_def)
    have u: "usable (Some p)" using reachable_usable [OF assms(1)] a by simp
    then show "usable (Some (rotated (rotation_angle (config i)) p))"
      by (simp add: usable_def rotated_def)
    show "tick i s = after_preprocess (collaborators i) (config i)
            (?s\<lparr>current_image := Some (rotated (rotation_angle (config i)) p)\<rparr>)"
      using fallback_preprocess [OF c _ u, of "config i"] a pr
      by (simp add: t process_frame_def)
  }
  {
    assume a: "queue_get i (2 / 10) = Some (None, n, fps) \<and> previous_image s = None"
    then have t: "tick i s = process_frame (collaborators i) (config i) ?s"
      using assms(2-4) by (simp add: tick_def Let_def)
    show "tick i s = Next ?s"
      using no_fallback_preprocess [OF c, of "config i"] pr a
      by (simp add: t process_frame_def)
  }
  {
    assume a: "queue_get i (2 / 10) = Some (Some img, n, fps)
      \<and> (img_rows (crop img (roi_window_x (config i)) (roi_window_y (config i))
                          (roi_window_w (config i)) (roi_window_h (config i))) = 0
          \<or> img_cols (crop img (roi_window_x (config i)) (roi_window_y (config i))
                            (roi_window_w (config i)) (roi_window_h (config i))) = 0)"
    then have t: "tick i s = process_frame (collaborators i) (config i) ?t"
      using assms(2-4) by (simp add: tick_def Let_def)
    have ci: "current_image ?t = Some img" by (simp add: store_frame_def)
    show "tick i s =
              Next (?t\<lparr>current_image :=
                         Some (crop img (roi_window_x (config i)) (roi_window_y (config i))
                                 (roi_window_w (config i)) (roi_window_h (config i)))\<rparr>)"
      using empty_crop_preprocess [OF ci, of "config i"] a
      by (simp add: t process_frame_def)
  }
  show "detector_calls ?s = detector_calls s"
    and "image_queue_outgoing ?s = image_queue_outgoing s"
    and "detector_calls ?t = detector_calls s"
    and "image_queue_outgoing ?t = image_queue_outgoing s"
    by (simp_all add: store_frame_def)
qed


lemma reachable_after_first_tick: "reachable after_first_tick"
  using reachable.after_tick
    [OF reachable.after_setup [OF reachable.at_init setup_only_hsf_ready] first_tick] .

theorem crop_failure_fallback_witness:
  "reachable (init 0) \<and> reachable after_first_tick
   \<and> \<not> cancel_is_set lost_frame_tick
   \<and> 0 < roi_window_w (config lost_frame_tick) \<and> 0 < roi_window_h (config lost_frame_tick)
   \<and> queue_get lost_frame_tick (2 / 10) = Some (None, 2, 30)
   \<and> previous_image (init 0) = None
   \<and> tick lost_frame_tick (init 0)
        = Next (store_frame (None, 2, 30) (await_frame lost_frame_tick (init 0)))
   \<and> previous_image after_first_tick = Some accepted100
   \<and> \<not> float_overflow (rotation_angle (config lost_frame_tick))
   \<and> tick lost_frame_tick after_first_tick =
        after_preprocess sample_ext (roi 0 0 100 100)
          ((store_frame (None, 2, 30) (await_frame lost_frame_tick after_first_tick))
             \<lparr>current_image := Some (rotated 0 accepted100)\<rparr>)
   \<and> \<not> cancel_is_set (frame_tick (roi 200 200 50 50) sample_ext)
   \<and> 0 < roi_window_w (config (frame_tick (roi 200 200 50 50) sample_ext))
   \<and> 0 < roi_window_h (config (frame_tick (roi 200 200 50 50) sample_ext))
   \<and> queue_get (frame_tick (roi 200 200 50 50) sample_ext) (2 / 10)
        = Some (Some frame100, 1, 30)
   \<and> img_rows (crop frame100 200 200 50 50) = 0
   \<and> tick (frame_tick (roi 200 200 50 50) sample_ext) after_first_tick =
        Next ((store_frame (Some frame100, 1, 30)
                 (await_frame (frame_tick (roi 200 200 50 50) sample_ext) after_first_tick))
                \<lparr>current_image := Some (crop frame100 200 200 50 50)\<rparr>)"
proof -
  let ?o = "frame_tick (roi 200 200 50 50) sample_ext"
  have h: "\<not> cancel_is_set lost_frame_tick" "0 < roi_window_w (config lost_frame_tick)"
    "0 < roi_window_h (config lost_frame_tick)"
    and q: "queue_get lost_frame_tick (2 / 10) = Some (None, 2, 30)"
    and f: "\<not> float_overflow (rotation_angle (config lost_frame_tick))"
    by (simp_all add: lost_frame_tick_def roi_def)
  have v: "config lost_frame_tick = roi 0 0 100 100"
    "collaborators lost_frame_tick = sample_ext" "rotation_angle (roi 0 0 100 100) = 0"
    by (simp_all add: lost_frame_tick_def roi_def)
  have ho: "\<not> cancel_is_set ?o" "0 < roi_window_w (config ?o)" "0 < roi_window_h (config ?o)"
    and qo: "queue_get ?o (2 / 10) = Some (Some frame100, 1, 30)"
    by (simp_all add: frame_tick_def roi_def)
  have vo: "roi_window_x (config ?o) = 200" "roi_window_y (config ?o) = 200"
    "roi_window_w (config ?o) = 50" "roi_window_h (config ?o) = 50"
    by (simp_all add: frame_tick_def roi_def)
  have e: "img_rows (crop frame100 200 200 50 50) = 0"
    by (simp add: crop_def frame100_def slice_len_def slice_index_def)
  have r0: "reachable (init 0)" by (rule reachable.at_init)
  have p0: "previous_image (init 0) = None" by (simp add: init_def)
  have p1: "previous_image after_first_tick = Some accepted100"
    by (simp add: after_first_tick_def)
  have b: "tick lost_frame_tick (init 0)
        = Next (store_frame (None, 2, 30) (await_frame lost_frame_tick (init 0)))"
    using crop_failure_fallback [where n = 2 and fps = 30, OF r0 h] q p0 by blast
  have a: "tick lost_frame_tick after_first_tick =
        after_preprocess sample_ext (roi 0 0 100 100)
          ((store_frame (None, 2, 30) (await_frame lost_frame_tick after_first_tick))
             \<lparr>current_image := Some (rotated 0 accepted100)\<rparr>)"
    using crop_failure_fallback
        [where n = 2 and fps = 30 and p = accepted100, OF reachable_after_first_tick h]
      q p1 f unfolding v by blast
  have c: "tick ?o after_first_tick =
        Next ((store_frame (Some frame100, 1, 30) (await_frame ?o after_first_tick))
                \<lparr>current_image := Some (crop frame100 200 200 50 50)\<rparr>)"
    using crop_failure_fallback
        [where n = 1 and fps = 30 and img = frame100, OF reachable_after_first_tick ho]
      qo e unfolding vo by blast
  show ?thesis
    using r0 reachable_after_first_tick h q p0 b p1 f a ho qo e c by blast
qed

end
